theory Spec2Isabelle
  imports Main "HOL-Library.Sublist" "HOL-Library.AList"
begin

section \<open>DreamDirector: the story state and the operations that change it\<close>

text \<open>
  A shallow embedding of the story orchestration of \<^verbatim>\<open>agents/agent.py\<close> and of the two
  story endpoints of \<^verbatim>\<open>backend/app.py\<close>.

  \<^item> The module global \<^verbatim>\<open>game_state\<close> is passed explicitly: every operation takes the
    state and returns the state it leaves behind, together with its result.
  \<^item> The remote services (text, image and video generation) are not part of the program.
    Each call to one of them is a parameter of the operation that makes the call: the
    reply as an \<open>option\<close>, where \<open>None\<close> stands for every way the call yields nothing
    (no client, an exception caught by the surrounding \<^verbatim>\<open>try\<close>, an empty reply).
    Prompts are built only to be sent to these services, so they are not modelled.
  \<^item> Python's \<^verbatim>\<open>int\<close> is \<open>int\<close>. Strings are \<open>string\<close>; the model is about ASCII text,
    for which \<^verbatim>\<open>str.lower\<close> changes exactly the letters A to Z.
  \<^item> Time stamps of history entries, console output and the background threads that
    stream music are left out: music generation only ever appends to
    \<^verbatim>\<open>generated_music\<close>, from a detached thread, after the operation has returned.
\<close>

subsection \<open>Strings\<close>

text \<open>\<^verbatim>\<open>needle in haystack\<close> on strings is \<^const>\<open>sublist\<close>; \<^verbatim>\<open>startswith\<close> is \<^const>\<open>prefix\<close>.\<close>

definition lower_char :: "char \<Rightarrow> char" where
  "lower_char c =
     (case map_of (zip ''ABCDEFGHIJKLMNOPQRSTUVWXYZ'' ''abcdefghijklmnopqrstuvwxyz'') c of
        Some d \<Rightarrow> d
      | None \<Rightarrow> c)"

definition lower :: "string \<Rightarrow> string" where
  "lower s = map lower_char s"

text \<open>The characters \<^verbatim>\<open>str.strip()\<close> removes, among the ASCII ones.\<close>

definition is_space :: "char \<Rightarrow> bool" where
  "is_space c \<longleftrightarrow>
     c \<in> set [CHR 0x09, CHR 0x0A, CHR 0x0B, CHR 0x0C, CHR 0x0D,
               CHR 0x1C, CHR 0x1D, CHR 0x1E, CHR 0x1F, CHR 0x20]"

definition strip :: "string \<Rightarrow> string" where
  "strip s = rev (dropWhile is_space (rev (dropWhile is_space s)))"

text \<open>\<^verbatim>\<open>s.split(sep)\<close> for a one-character separator: never the empty list.\<close>

fun split_str :: "char \<Rightarrow> string \<Rightarrow> string list" where
  "split_str sep [] = [[]]"
| "split_str sep (c # cs) =
     (if c = sep then [] # split_str sep cs
      else (case split_str sep cs of
              w # ws \<Rightarrow> (c # w) # ws
            | [] \<Rightarrow> [[c]]))"

subsection \<open>The data model\<close>

record visual_style =
  art_style :: string
  color_palette :: string
  character_references :: "(string \<times> string) list"
  location_references :: "(string \<times> string) list"
  style_seed :: string

text \<open>\<^verbatim>\<open>AudioState\<close> without the handle of the live music session.\<close>

record audio_state =
  ambient_layers :: "string list"
  character_themes :: "(string \<times> string) list"
  location_atmospheres :: "(string \<times> string) list"
  current_emotional_tone :: string
  music_transition_active :: bool

text \<open>
  \<^verbatim>\<open>scene_media_count\<close> is a dictionary that only ever has the keys
  \<^verbatim>\<open>"images"\<close>, \<^verbatim>\<open>"videos"\<close> and \<^verbatim>\<open>"music"\<close>.
\<close>

record media_count =
  images :: int
  videos :: int
  music :: int

text \<open>
  The entries of \<^verbatim>\<open>story_history\<close>, one constructor for each value of the key
  \<^verbatim>\<open>'type'\<close>, with the payload the operations store.
\<close>

datatype story_event =
    Opening_scene string "string option"
  | Choice_moment string string string string
  | Choice_resolution string string "string option"
  | Story_continuation string string int
  | Story_climax string "string option" "string option"

fun event_type :: "story_event \<Rightarrow> string" where
  "event_type (Opening_scene location img) = ''opening_scene''"
| "event_type (Choice_moment situation a b c) = ''choice_moment''"
| "event_type (Choice_resolution chosen narrative img) = ''choice_resolution''"
| "event_type (Story_continuation content new_scene n) = ''story_continuation''"
| "event_type (Story_climax final_choice video img) = ''story_climax''"

record game_state =
  current_scene :: string
  current_mood :: string
  characters_present :: "string list"
  user_inventory :: "string list"
  story_history :: "story_event list"
  world_knowledge :: "(string \<times> (string \<times> string) list) list"
  current_danger_level :: int
  user_choices_made :: int
  generated_images :: "string list"
  generated_videos :: "string list"
  generated_music :: "string list"
  visual_style :: visual_style
  audio_state :: audio_state
  scene_media_count :: media_count

text \<open>\<^verbatim>\<open>game_state = GameState()\<close>: the state a fresh process starts with.\<close>

definition GameState :: game_state where
  "GameState =
     \<lparr> current_scene = ''mysterious_forest'',
       current_mood = ''mysterious'',
       characters_present = [],
       user_inventory = [],
       story_history = [],
       world_knowledge = [],
       current_danger_level = 1,
       user_choices_made = 0,
       generated_images = [],
       generated_videos = [],
       generated_music = [],
       visual_style =
         \<lparr> art_style = ''cinematic fantasy realism'',
           color_palette = ''rich atmospheric lighting with dramatic shadows'',
           character_references = [],
           location_references = [],
           style_seed = ''epic_fantasy_2024'' \<rparr>,
       audio_state =
         \<lparr> ambient_layers = [],
           character_themes = [],
           location_atmospheres = [],
           current_emotional_tone = ''mysterious'',
           music_transition_active = False \<rparr>,
       scene_media_count = \<lparr> images = 0, videos = 0, music = 0 \<rparr> \<rparr>"

subsection \<open>Image and video generation\<close>

text \<open>
  \<^verbatim>\<open>generate_consistent_image\<close>: \<open>reply\<close> is the time stamp under which the image the
  provider returned was saved. Only a saved image is recorded: its file name is appended
  to \<^verbatim>\<open>generated_images\<close> and the image count goes up by one.
\<close>

definition generate_consistent_image ::
  "string option \<Rightarrow> game_state \<Rightarrow> string option \<times> game_state" where
  "generate_consistent_image reply s =
     (case reply of
        None \<Rightarrow> (None, s)
      | Some timestamp \<Rightarrow>
          (let filename = ''generated_scene_'' @ timestamp @ ''.png''
           in (Some filename,
               s\<lparr> generated_images := generated_images s @ [filename],
                  scene_media_count :=
                    (scene_media_count s)\<lparr> images := images (scene_media_count s) + 1 \<rparr> \<rparr>)))"

text \<open>
  \<^verbatim>\<open>generate_video_from_image_seed\<close>, called with a seed image; \<open>reply\<close> is the time
  stamp under which the video was saved.
\<close>

definition generate_video_from_image_seed ::
  "string option \<Rightarrow> game_state \<Rightarrow> string option \<times> game_state" where
  "generate_video_from_image_seed reply s =
     (case reply of
        None \<Rightarrow> (None, s)
      | Some timestamp \<Rightarrow>
          (let filename = ''generated_video_'' @ timestamp @ ''.mp4''
           in (Some filename,
               s\<lparr> generated_videos := generated_videos s @ [filename],
                  scene_media_count :=
                    (scene_media_count s)\<lparr> videos := videos (scene_media_count s) + 1 \<rparr> \<rparr>)))"

record establishing_scene =
  es_location :: string
  es_mood :: string
  es_generated_file :: "string option"
  es_status :: string

text \<open>
  \<^verbatim>\<open>generate_establishing_scene\<close>: the provider is asked only while the image count is
  below one and media generation is available.
\<close>

definition generate_establishing_scene ::
  "bool \<Rightarrow> string option \<Rightarrow> string \<Rightarrow> string \<Rightarrow> game_state
     \<Rightarrow> establishing_scene \<times> game_state" where
  "generate_establishing_scene media_generation_available reply location mood s =
     (let should_generate_image = images (scene_media_count s) < 1;
          (generated_image, s1) =
            (if should_generate_image \<and> media_generation_available then
               (case generate_consistent_image reply s of
                  (Some img, s') \<Rightarrow>
                    (Some img,
                     s'\<lparr> visual_style :=
                           (visual_style s')\<lparr> location_references :=
                             AList.update location img
                               (location_references (visual_style s')) \<rparr> \<rparr>)
                | (None, s') \<Rightarrow> (None, s'))
             else (None, s))
      in (\<lparr> es_location = location,
            es_mood = mood,
            es_generated_file = generated_image,
            es_status = (if generated_image \<noteq> None then ''generated'' else ''prompt_only'') \<rparr>,
          s1))"

text \<open>
  \<^verbatim>\<open>create_single_choice_image\<close>: no look at the image count. After the call to
  \<^verbatim>\<open>generate_consistent_image\<close>, which has recorded the image already, the file name is
  appended and the count raised once more.
\<close>

definition create_single_choice_image ::
  "bool \<Rightarrow> string option \<Rightarrow> game_state \<Rightarrow> string option \<times> game_state" where
  "create_single_choice_image media_generation_available reply s =
     (if media_generation_available then
        (case generate_consistent_image reply s of
           (Some image_file, s1) \<Rightarrow>
             (let s2 = s1\<lparr> generated_images := generated_images s1 @ [image_file] \<rparr>;
                  s3 = s2\<lparr> scene_media_count :=
                             (scene_media_count s2)\<lparr> images := images (scene_media_count s2) + 1 \<rparr> \<rparr>
              in (Some image_file, s3))
         | (None, s1) \<Rightarrow> (None, s1))
      else (None, s))"

text \<open>
  \<^verbatim>\<open>create_dramatic_outcome\<close>: a music cue, which changes nothing, and the single image.
\<close>

definition create_dramatic_outcome ::
  "bool \<Rightarrow> string option \<Rightarrow> game_state \<Rightarrow> string option \<times> game_state" where
  "create_dramatic_outcome media_generation_available reply s =
     create_single_choice_image media_generation_available reply s"

text \<open>
  \<^verbatim>\<open>create_epic_climax_video\<close>: the latest image is the seed; without one no video is
  requested. A generated video is appended a second time here.
\<close>

definition create_epic_climax_video ::
  "bool \<Rightarrow> string option \<Rightarrow> game_state \<Rightarrow> string option \<times> game_state" where
  "create_epic_climax_video media_generation_available reply s =
     (if media_generation_available \<and> generated_images s \<noteq> [] then
        (case generate_video_from_image_seed reply s of
           (Some generated_video, s1) \<Rightarrow>
             (Some generated_video,
              s1\<lparr> generated_videos := generated_videos s1 @ [generated_video] \<rparr>)
         | (None, s1) \<Rightarrow> (None, s1))
      else (None, s))"

subsection \<open>Scenarios\<close>

record scenario =
  sc_setting :: string
  sc_hook :: string
  sc_characters :: "string list"
  sc_visual_style :: string
  sc_music_themes :: "string list"
  sc_choices :: "string list"

text \<open>The three entries of \<^verbatim>\<open>demo_scenarios\<close>.\<close>

definition cyberpunk_detective_noir :: scenario where
  "cyberpunk_detective_noir =
     \<lparr> sc_setting = ''Neo-Tokyo 2087: A rain-soaked metropolis where corporate zaibatsus control reality through neural implants'',
       sc_hook = ''You're a rogue detective investigating the mysterious 'Serpent's Eye' conspiracy in the digital underground'',
       sc_characters = [''Kira Nakamura - Cybernetic hacker with secrets'',
                        ''Director Sato - Corporate overseer with hidden agenda''],
       sc_visual_style = ''cyberpunk noir with neon highlights and atmospheric rain'',
       sc_music_themes = [''Synthwave noir'', ''Corporate tension'', ''Underground resistance''],
       sc_choices = [''Infiltrate the corporate tower'', ''Meet with underground contacts'',
                     ''Investigate the abandoned subway''] \<rparr>"

definition enchanted_forest_mystery :: scenario where
  "enchanted_forest_mystery =
     \<lparr> sc_setting = ''An ancient forest where magic flows through twisted trees and glowing flowers'',
       sc_hook = ''You discover a hidden grove where a mysterious figure guards the Pool of Fates'',
       sc_characters = [''Fate Weaver - Ancient guardian with cryptic wisdom'',
                        ''Flickering Flame - Playful forest spirit''],
       sc_visual_style = ''mystical fantasy with ethereal lighting and magical particles'',
       sc_music_themes = [''Mystical forest ambience'', ''Ancient magic'', ''Ethereal wonder''],
       sc_choices = [''Approach the guardian peacefully'', ''Observe from the shadows'',
                     ''Call out boldly''] \<rparr>"

definition dragons_lair_confrontation :: scenario where
  "dragons_lair_confrontation =
     \<lparr> sc_setting = ''The volcanic lair of an ancient dragon filled with treasures and dangerous magic'',
       sc_hook = ''The dragon offers you a choice: great power or great wisdom, but not both'',
       sc_characters = [''Pyraxis the Ancient - Wise but dangerous dragon'',
                        ''Echo - Dragon's mysterious companion''],
       sc_visual_style = ''epic fantasy with dramatic fire lighting and volcanic atmosphere'',
       sc_music_themes = [''Epic orchestral drama'', ''Dragon's ancient power'', ''Volcanic ambience''],
       sc_choices = [''Accept the power'', ''Choose wisdom'', ''Propose an alternative''] \<rparr>"

text \<open>The scenario \<^verbatim>\<open>start_new_adventure\<close> builds when no keyword matches.\<close>

definition custom_scenario :: "string \<Rightarrow> scenario" where
  "custom_scenario user_story_request =
     \<lparr> sc_setting = ''An immersive world based on: '' @ user_story_request,
       sc_hook = ''Your adventure begins with an intriguing mystery that draws you in...'',
       sc_characters = [''Mysterious Guide'', ''Helpful Ally''],
       sc_visual_style = ''cinematic realism with atmospheric lighting'',
       sc_music_themes = [''Adventure atmosphere'', ''Mystery and discovery''],
       sc_choices = [''Investigate boldly'', ''Proceed cautiously'', ''Seek allies first''] \<rparr>"

subsection \<open>Starting an adventure\<close>

record adventure_init =
  init_user_request :: string
  init_story_type :: string
  init_scenario :: scenario

definition start_new_adventure :: "string \<Rightarrow> game_state \<Rightarrow> adventure_init \<times> game_state" where
  "start_new_adventure user_story_request s =
     (let request = lower user_story_request;
          (story_type, scenario) =
            (if sublist ''cyberpunk'' request \<or> sublist ''detective'' request then
               (''cyberpunk'', cyberpunk_detective_noir)
             else if sublist ''fantasy'' request \<or> sublist ''knight'' request
                     \<or> sublist ''dragon'' request then
               (''fantasy'', dragons_lair_confrontation)
             else if sublist ''forest'' request \<or> sublist ''magic'' request then
               (''mystical'', enchanted_forest_mystery)
             else
               (''adventure'', custom_scenario user_story_request));
          s1 = s\<lparr> current_scene := sc_setting scenario \<rparr>;
          s2 = s1\<lparr> current_mood := ''mysterious'' \<rparr>;
          s3 = s2\<lparr> visual_style := (visual_style s2)\<lparr> art_style := sc_visual_style scenario \<rparr> \<rparr>;
          s4 = s3\<lparr> story_history := [] \<rparr>;
          s5 = s4\<lparr> scene_media_count := \<lparr> images = 0, videos = 0, music = 0 \<rparr> \<rparr>;
          s6 = s5\<lparr> user_choices_made := 0 \<rparr>
      in (\<lparr> init_user_request = user_story_request,
            init_story_type = story_type,
            init_scenario = scenario \<rparr>,
          s6))"

definition begin_opening_scene ::
  "bool \<Rightarrow> string option \<Rightarrow> game_state \<Rightarrow> establishing_scene \<times> game_state" where
  "begin_opening_scene media_generation_available reply s =
     (let current_setting = current_scene s;
          (opening_result, s1) =
            generate_establishing_scene media_generation_available reply
              current_setting ''mysterious'' s;
          s2 = s1\<lparr> story_history := story_history s1 @
                   [Opening_scene (es_location opening_result)
                      (es_generated_file opening_result)] \<rparr>
      in (opening_result, s2))"

subsection \<open>Presenting and resolving a choice\<close>

text \<open>
  The loop of \<^verbatim>\<open>present_story_choice\<close> over the lines of the reply: a line that starts
  with a label replaces that choice, so the last such line wins.
\<close>

fun parse_choices :: "string list \<Rightarrow> string \<times> string \<times> string \<Rightarrow> string \<times> string \<times> string" where
  "parse_choices [] abc = abc"
| "parse_choices (l # ls) (choice_a, choice_b, choice_c) =
     (let line = strip l in
        if prefix ''A:'' line then parse_choices ls (strip (drop 2 line), choice_b, choice_c)
        else if prefix ''B:'' line then parse_choices ls (choice_a, strip (drop 2 line), choice_c)
        else if prefix ''C:'' line then parse_choices ls (choice_a, choice_b, strip (drop 2 line))
        else parse_choices ls (choice_a, choice_b, choice_c))"

record choice_presentation =
  cp_situation :: string
  cp_choice_a :: string
  cp_choice_b :: string
  cp_choice_c :: string

text \<open>
  \<^verbatim>\<open>present_story_choice\<close>: \<open>reply\<close> is the text the model answered the choice prompt
  with. The previews of \<^verbatim>\<open>create_choice_previews\<close> carry the three texts and no image.
\<close>

definition present_story_choice ::
  "string option \<Rightarrow> string \<Rightarrow> string \<Rightarrow> string \<Rightarrow> string \<Rightarrow> game_state
     \<Rightarrow> choice_presentation \<times> game_state" where
  "present_story_choice reply situation0 choice_a0 choice_b0 choice_c0 s =
     (let situation =
            (if situation0 = [] then
               ''You find yourself in '' @ current_scene s @ ''. What is your next move?''
             else situation0);
          (choice_a, choice_b, choice_c) =
            (if choice_a0 = [] \<and> choice_b0 = [] \<and> choice_c0 = [] then
               (case reply of
                  Some ai_response \<Rightarrow>
                    parse_choices (split_str (CHR 0x0A) ai_response)
                      (choice_a0, choice_b0, choice_c0)
                | None \<Rightarrow> (choice_a0, choice_b0, choice_c0))
             else (choice_a0, choice_b0, choice_c0));
          s1 = s\<lparr> story_history := story_history s @
                  [Choice_moment situation choice_a choice_b choice_c] \<rparr>
      in (\<lparr> cp_situation = situation,
            cp_choice_a = choice_a,
            cp_choice_b = choice_b,
            cp_choice_c = choice_c \<rparr>,
          s1))"

record resolution =
  res_chosen_option :: string
  res_ai_narrative :: string
  res_outcome :: "string option"
  res_story_progress :: int
  res_danger_level :: int
  res_user_choices_made :: int
  res_next_step :: string

text \<open>
  \<^verbatim>\<open>resolve_user_choice\<close>: \<open>narrative_reply\<close> is the text of the model's answer, \<open>None\<close>
  when the \<^verbatim>\<open>try\<close> block ends in its \<^verbatim>\<open>except\<close> branch; \<open>image_reply\<close> is the reply to
  the image request of the dramatic outcome.
\<close>

definition resolve_user_choice ::
  "bool \<Rightarrow> string option \<Rightarrow> string option \<Rightarrow> string \<Rightarrow> game_state
     \<Rightarrow> resolution \<times> game_state" where
  "resolve_user_choice media_generation_available narrative_reply image_reply chosen_option s =
     (let ai_narrative =
            (case narrative_reply of
               Some text \<Rightarrow> text
             | None \<Rightarrow>
                 ''Your choice to '' @ chosen_option @ '' has immediate consequences in ''
                 @ current_scene s
                 @ ''. The situation evolves as you face the results of your decision.'');
          (outcome_result, s1) =
            create_dramatic_outcome media_generation_available image_reply s;
          s2 = s1\<lparr> story_history := story_history s1 @
                   [Choice_resolution chosen_option ai_narrative outcome_result] \<rparr>;
          s3 = s2\<lparr> current_danger_level := current_danger_level s2 + 1 \<rparr>;
          s4 = s3\<lparr> user_choices_made := user_choices_made s3 + 1 \<rparr>
      in (\<lparr> res_chosen_option = chosen_option,
            res_ai_narrative = ai_narrative,
            res_outcome = outcome_result,
            res_story_progress = int (length (story_history s4)),
            res_danger_level = current_danger_level s4,
            res_user_choices_made = user_choices_made s4,
            res_next_step =
              (if user_choices_made s4 < 5 then ''continue_story'' else ''story_climax'') \<rparr>,
          s4))"

subsection \<open>Continuing the narrative\<close>

text \<open>
  The branches of \<^verbatim>\<open>continue_narrative\<close>: for each number of choices made, the first
  keyword found in the lowered current scene selects the new scene and the passage.
  The result is the state after the branch and the value of the local variable
  \<^verbatim>\<open>narrative_continuation\<close>, which no branch assigns when the number of choices is
  none of 1, 2, 3, 4.
\<close>

definition evolve_story :: "int \<Rightarrow> game_state \<Rightarrow> game_state \<times> string option" where
  "evolve_story choices_made s =
     (let scene = lower (current_scene s) in
      if choices_made = 1 then
        (if sublist ''cyberpunk'' scene then
           (s\<lparr> current_scene := ''A hidden underground resistance hideout beneath Neo-Tokyo'' \<rparr>,
            Some ''Your actions have triggered corporate attention. You've been contacted by the underground resistance and brought to their secret base. The stakes have escalated - they reveal the Serpent's Eye conspiracy goes deeper than anyone imagined.'')
         else if sublist ''atlantis'' scene then
           (s\<lparr> current_scene := ''The ancient Atlantean throne room with mystical technology'' \<rparr>,
            Some ''Your exploration has awakened something ancient. The ruins have led you to a massive throne room where Atlantean technology still hums with power. Ancient guardians stir, and you realize you've stumbled into something far greater than a simple exploration.'')
         else if sublist ''forest'' scene then
           (s\<lparr> current_scene := ''A mystical clearing where reality bends and magic flows freely'' \<rparr>,
            Some ''Your choice has opened a path deeper into the enchanted realm. You now stand in a clearing where the very air shimmers with magic, and you can see portals to other realms flickering in and out of existence.'')
         else
           (s\<lparr> current_scene := ''A deeper, more dangerous part of '' @ current_scene s \<rparr>,
            Some ''Your actions have consequences. The situation has evolved, and you find yourself facing unexpected challenges that will test your resolve.''))
      else if choices_made = 2 then
        (if sublist ''cyberpunk'' scene then
           (s\<lparr> current_scene := ''The corporate zaibatsu tower's executive floors'',
               characters_present :=
                 characters_present s @ [''Director Sato - Corporate AI Overlord''] \<rparr>,
            Some ''The resistance mission has brought you into the heart of enemy territory. You're now infiltrating the highest levels of the corporate tower, where reality itself can be manipulated through neural networks. Corporate agents are closing in.'')
         else if sublist ''atlantis'' scene then
           (s\<lparr> current_scene := ''The abyssal depths where ancient leviathans guard Atlantean secrets'',
               characters_present :=
                 characters_present s @ [''Tidal Guardian - Ancient Atlantean Protector''] \<rparr>,
            Some ''The throne room revealed a path to the deepest ocean trenches. Here, massive sea creatures that have lived since Atlantis fell guard the most powerful artifacts. You must prove yourself worthy or face their ancient wrath.'')
         else if sublist ''forest'' scene then
           (s\<lparr> current_scene := ''The Shadowrealm where dark magic and light magic clash eternally'',
               characters_present :=
                 characters_present s @ [''Shadow Weaver - Keeper of Dark Mysteries''] \<rparr>,
            Some ''Your magical exploration has drawn you into the Shadowrealm, a dimension where the battle between light and dark magic rages eternally. Here, your choices will determine which side of the cosmic balance you support.'')
         else
           (s\<lparr> current_scene := ''A completely new location connected to '' @ current_scene s \<rparr>,
            Some ''Your journey has taken an unexpected turn. You've discovered a new realm connected to your adventure, where new allies and enemies await.''))
      else if choices_made = 3 then
        (if sublist ''cyberpunk'' scene then
           (s\<lparr> current_scene := ''The digital realm inside the neural network itself'' \<rparr>,
            Some ''You've jacked directly into the corporate neural network. Reality is now digital - you exist as data, fighting AI constructs in a realm where thoughts become weapons and memories can be rewritten. The final confrontation with the AI overlord approaches.'')
         else if sublist ''atlantis'' scene then
           (s\<lparr> current_scene := ''The timestream portal chamber where past and future Atlantis collide'' \<rparr>,
            Some ''The leviathans' test has opened a temporal rift. You can now see Atlantis in its prime and witness its fall. You have the power to change history itself, but doing so could unravel reality.'')
         else if sublist ''forest'' scene then
           (s\<lparr> current_scene := ''The World Tree's crown where cosmic forces converge'' \<rparr>,
            Some ''Your choices in the Shadowrealm have earned you passage to the World Tree's crown. Here, at the nexus of all realities, you can reshape the fundamental forces of nature itself. But cosmic entities watch your every move.'')
         else
           (s\<lparr> current_scene := ''The climactic confrontation arising from '' @ current_scene s \<rparr>,
            Some ''The ultimate challenge reveals itself. Everything you've done has led to this pivotal moment where your choices will determine not just your fate, but the fate of all involved.''))
      else if choices_made = 4 then
        (if sublist ''cyberpunk'' scene then
           (s\<lparr> current_scene := ''The core of the Serpent's Eye AI system - reality's command center'' \<rparr>,
            Some ''You've reached the heart of the conspiracy. The Serpent's Eye is revealed to be a quantum AI that controls reality itself through neural manipulation. One final choice will determine whether humanity remains free or becomes permanently enslaved to artificial intelligence.'')
         else if sublist ''atlantis'' scene then
           (s\<lparr> current_scene := ''The moment of Atlantis's original fall - you can change everything'' \<rparr>,
            Some ''You stand at the exact moment of Atlantis's destruction. With the power you've gained, you can prevent the fall of the greatest civilization ever known. But doing so might prevent humanity from ever learning to protect itself from such power.'')
         else if sublist ''forest'' scene then
           (s\<lparr> current_scene := ''The cosmic loom where reality's threads can be rewoven'' \<rparr>,
            Some ''At the World Tree's peak, you've found the cosmic loom that weaves the threads of reality itself. You can reshape the natural order, restore balance to magic, or claim ultimate power. The cosmic forces await your final decision.'')
         else
           (s\<lparr> current_scene := ''The ultimate threshold of '' @ current_scene s \<rparr>,
            Some ''You stand at the ultimate threshold. Your journey has brought you to a point where a single choice will reshape everything. The final moment of truth has arrived.''))
      else (s, None))"

datatype error = UnboundLocalError

record continuation =
  cont_narrative :: string
  cont_current_scene :: string
  cont_story_progress :: int
  cont_user_choices_made :: int
  cont_choices_remaining :: int
  cont_danger_level :: int

text \<open>
  \<^verbatim>\<open>continue_narrative\<close>: the danger level is written before the history entry is built.
  Building the entry reads \<^verbatim>\<open>narrative_continuation\<close>; when no branch has assigned it,
  that read raises and the operation ends there, with the state as changed so far.
\<close>

definition continue_narrative :: "game_state \<Rightarrow> (error + continuation) \<times> game_state" where
  "continue_narrative s =
     (let choices_made = user_choices_made s;
          (s1, narrative_continuation) = evolve_story choices_made s;
          s2 = s1\<lparr> current_danger_level := min 10 (3 + choices_made * 2) \<rparr>
      in case narrative_continuation of
           None \<Rightarrow> (Inl UnboundLocalError, s2)
         | Some passage \<Rightarrow>
             (let s3 = s2\<lparr> story_history := story_history s2 @
                          [Story_continuation passage (current_scene s2) choices_made] \<rparr>
              in (Inr \<lparr> cont_narrative = passage,
                        cont_current_scene = current_scene s3,
                        cont_story_progress = int (length (story_history s3)),
                        cont_user_choices_made = user_choices_made s3,
                        cont_choices_remaining = 5 - user_choices_made s3,
                        cont_danger_level = current_danger_level s3 \<rparr>,
                  s3)))"

subsection \<open>The climax\<close>

record climax =
  cl_final_choice :: string
  cl_epic_climax_video :: "string option"
  cl_backup_image_result :: "string option"
  cl_story_complete :: bool

definition create_story_climax ::
  "bool \<Rightarrow> string option \<Rightarrow> string option \<Rightarrow> string \<Rightarrow> game_state \<Rightarrow> climax \<times> game_state" where
  "create_story_climax media_generation_available video_reply image_reply final_choice s =
     (let (epic_video, s1) = create_epic_climax_video media_generation_available video_reply s;
          (image_result, s2) = create_single_choice_image media_generation_available image_reply s1;
          s3 = s2\<lparr> story_history := story_history s2 @
                   [Story_climax final_choice epic_video image_result] \<rparr>;
          s4 = s3\<lparr> current_danger_level := 10 \<rparr>
      in (\<lparr> cl_final_choice = final_choice,
            cl_epic_climax_video = epic_video,
            cl_backup_image_result = image_result,
            cl_story_complete = True \<rparr>,
          s4))"

subsection \<open>The story endpoints\<close>

text \<open>
  What the world outside answers during one request: whether the agent module and the
  media libraries could be imported, and the replies of the services, one field for each
  call a request can make.
\<close>

record collaborators =
  agent_available :: bool
  media_generation_available :: bool
  narrative_reply :: "string option"
  image_reply :: "string option"
  choices_reply :: "string option"
  climax_video_reply :: "string option"
  climax_image_reply :: "string option"

datatype http_error = HTTPException int

record story_response =
  narrative :: string
  choices :: "string list"
  scene_description :: string
  mood :: string
  scene_id :: string
  story_complete :: bool
  story_progression :: "(string \<times> string) list"
  choices_remaining :: int
  current_choice :: int
  total_choices :: int

text \<open>\<^verbatim>\<open>POST /api/start-story\<close>.\<close>

definition start_story ::
  "collaborators \<Rightarrow> string \<Rightarrow> game_state \<Rightarrow> (http_error + story_response) \<times> game_state" where
  "start_story env story_request s =
     (if \<not> agent_available env then (Inl (HTTPException 503), s)
      else
        (let (init_result, s1) = start_new_adventure story_request s;
             (opening_result, s2) =
               begin_opening_scene (media_generation_available env) (image_reply env) s1;
             (choice_result, s3) = present_story_choice (choices_reply env) [] [] [] [] s2;
             ai_narrative0 =
               (if sc_hook (init_scenario init_result) \<noteq> [] then
                  sc_hook (init_scenario init_result)
                else ''Story initializing...'');
             ai_situation = cp_situation choice_result;
             ai_narrative =
               (if ai_situation \<noteq> [] then ai_narrative0 @ '' '' @ ai_situation
                else ai_narrative0)
         in (Inr \<lparr> narrative = ai_narrative,
                   choices = [cp_choice_a choice_result, cp_choice_b choice_result,
                              cp_choice_c choice_result],
                   scene_description = sc_setting (init_scenario init_result),
                   mood = current_mood s3,
                   scene_id = ''opening_scene'',
                   story_complete = False,
                   story_progression = [],
                   choices_remaining = 5,
                   current_choice = 0,
                   total_choices = 5 \<rparr>,
             s3)))"

text \<open>
  \<^verbatim>\<open>POST /api/make-choice\<close>. An exception raised inside the handler is caught there and
  answered with status 500; what the operations wrote before it stays in the state.
\<close>

definition make_choice ::
  "collaborators \<Rightarrow> string \<Rightarrow> game_state \<Rightarrow> (http_error + story_response) \<times> game_state" where
  "make_choice env choice s =
     (if \<not> agent_available env then (Inl (HTTPException 503), s)
      else
        (let (choice_result, s1) =
               resolve_user_choice (media_generation_available env) (narrative_reply env)
                 (image_reply env) choice s;
             ai_narrative = res_ai_narrative choice_result;
             story_progression0 = [(''choice_result'', ai_narrative)];
             user_choices_made' = res_user_choices_made choice_result;
             choices_remaining' = 5 - user_choices_made'
         in if user_choices_made' < 5 then
              (case continue_narrative s1 of
                 (Inl e, s2) \<Rightarrow> (Inl (HTTPException 500), s2)
               | (Inr narrative_result, s2) \<Rightarrow>
                   (let story_progression1 =
                          (if cont_narrative narrative_result \<noteq> [] then
                             story_progression0 @
                               [(''story_continuation'', cont_narrative narrative_result)]
                           else story_progression0);
                        (next_choice_result, s3) =
                          present_story_choice (choices_reply env) [] [] [] [] s2;
                        new_situation = cp_situation next_choice_result;
                        story_progression2 =
                          story_progression1 @ [(''new_situation'', new_situation)]
                    in (Inr \<lparr> narrative = ai_narrative,
                              choices = [cp_choice_a next_choice_result,
                                         cp_choice_b next_choice_result,
                                         cp_choice_c next_choice_result],
                              scene_description = cont_current_scene narrative_result,
                              mood = ''mysterious'',
                              scene_id = [],
                              story_complete = False,
                              story_progression = story_progression2,
                              choices_remaining = choices_remaining',
                              current_choice = user_choices_made',
                              total_choices = 5 \<rparr>,
                        s3)))
            else
              (let (climax_result, s2) =
                     create_story_climax (media_generation_available env)
                       (climax_video_reply env) (climax_image_reply env) choice s1
               in (Inr \<lparr> narrative = ai_narrative,
                         choices = [],
                         scene_description = current_scene s2 @ '' - FINALE'',
                         mood = ''mysterious'',
                         scene_id = [],
                         story_complete = True,
                         story_progression = story_progression0,
                         choices_remaining = 0,
                         current_choice = 5,
                         total_choices = 5 \<rparr>,
                   s2))))"

text \<open>
  A client session: the requests of one client, one after the other. Each request is a
  choice together with what the world answers while it is handled; a request that is
  answered with an error leaves its changes in the state like any other.
\<close>

fun make_choices :: "(collaborators \<times> string) list \<Rightarrow> game_state \<Rightarrow> game_state" where
  "make_choices [] s = s"
| "make_choices ((env, choice) # rest) s = make_choices rest (snd (make_choice env choice s))"

text \<open>
  A fresh process serving one client: the story is started and \<open>n\<close> choices are made,
  with the same answers from the world each time.
\<close>

definition played :: "collaborators \<Rightarrow> string \<Rightarrow> nat \<Rightarrow> game_state" where
  "played env story_request n =
     make_choices (replicate n (env, ''A'')) (snd (start_story env story_request GameState))"

text \<open>Every service down, and every service answering.\<close>

definition offline :: collaborators where
  "offline =
     \<lparr> agent_available = True,
       media_generation_available = False,
       narrative_reply = None,
       image_reply = None,
       choices_reply = None,
       climax_video_reply = None,
       climax_image_reply = None \<rparr>"

definition online :: collaborators where
  "online =
     \<lparr> agent_available = True,
       media_generation_available = True,
       narrative_reply = Some ''The door gives way.'',
       image_reply = Some ''20250101_120000'',
       choices_reply = Some (''A: Fight'' @ [CHR 0x0A] @ ''B: Hide'' @ [CHR 0x0A] @ ''C: Talk''),
       climax_video_reply = Some ''20250101_120500'',
       climax_image_reply = Some ''20250101_120501'' \<rparr>"

subsection \<open>The states a run can be in\<close>

text \<open>
  A process starts in \<^const>\<open>GameState\<close>, and the state changes only through the
  operations: the endpoints call them in a fixed order, the agent calls them as tools in
  whatever order the model decides, and the world answers each call as it likes. Of the
  operations of the source that are not modelled, \<^verbatim>\<open>continue_story_with_music\<close>
  is called from nowhere, and the others do not assign \<^verbatim>\<open>current_scene\<close>.
\<close>

inductive reachable :: "game_state \<Rightarrow> bool" where
  fresh: "reachable GameState"
| started: "reachable s \<Longrightarrow> reachable (snd (start_new_adventure request s))"
| opened: "reachable s \<Longrightarrow> reachable (snd (begin_opening_scene m reply s))"
| presented:
    "reachable s \<Longrightarrow> reachable (snd (present_story_choice reply situation a b c s))"
| resolved:
    "reachable s \<Longrightarrow> reachable (snd (resolve_user_choice m text_reply reply chosen s))"
| continued: "reachable s \<Longrightarrow> reachable (snd (continue_narrative s))"
| finished:
    "reachable s \<Longrightarrow> reachable (snd (create_story_climax m video_reply reply final s))"

section \<open>What the operations do to the state\<close>

subsection \<open>Recording an image\<close>

lemma create_single_choice_image_frame:
  "user_choices_made (snd (create_single_choice_image m i s)) = user_choices_made s"
  "current_danger_level (snd (create_single_choice_image m i s)) = current_danger_level s"
  "current_scene (snd (create_single_choice_image m i s)) = current_scene s"
  "story_history (snd (create_single_choice_image m i s)) = story_history s"
  "characters_present (snd (create_single_choice_image m i s)) = characters_present s"
  by (simp_all add: create_single_choice_image_def generate_consistent_image_def Let_def
        split: option.splits)

lemma create_single_choice_image_success:
  "create_single_choice_image True (Some timestamp) s =
     (Some (''generated_scene_'' @ timestamp @ ''.png''),
      s\<lparr> generated_images := generated_images s @
             [''generated_scene_'' @ timestamp @ ''.png'', ''generated_scene_'' @ timestamp @ ''.png''],
         scene_media_count :=
           (scene_media_count s)\<lparr> images := images (scene_media_count s) + 2 \<rparr> \<rparr>)"
  by (simp add: create_single_choice_image_def generate_consistent_image_def Let_def)

subsection \<open>Resolving a choice\<close>

lemma resolve_user_choice_state:
  "user_choices_made (snd (resolve_user_choice m n i c s)) = user_choices_made s + 1"
  "current_danger_level (snd (resolve_user_choice m n i c s)) = current_danger_level s + 1"
  "current_scene (snd (resolve_user_choice m n i c s)) = current_scene s"
  "res_user_choices_made (fst (resolve_user_choice m n i c s)) = user_choices_made s + 1"
  "story_history (snd (resolve_user_choice m n i c s)) =
     story_history s @
       [Choice_resolution c (res_ai_narrative (fst (resolve_user_choice m n i c s)))
          (res_outcome (fst (resolve_user_choice m n i c s)))]"
proof -
  obtain img s1 where o: "create_single_choice_image m i s = (img, s1)"
    by (cases "create_single_choice_image m i s")
  from o create_single_choice_image_frame [of m i s]
  have f: "user_choices_made s1 = user_choices_made s"
    "current_danger_level s1 = current_danger_level s"
    "current_scene s1 = current_scene s"
    "story_history s1 = story_history s"
    by simp_all
  show "user_choices_made (snd (resolve_user_choice m n i c s)) = user_choices_made s + 1"
    by (simp add: resolve_user_choice_def create_dramatic_outcome_def Let_def o f)
  show "current_danger_level (snd (resolve_user_choice m n i c s)) = current_danger_level s + 1"
    by (simp add: resolve_user_choice_def create_dramatic_outcome_def Let_def o f)
  show "current_scene (snd (resolve_user_choice m n i c s)) = current_scene s"
    by (simp add: resolve_user_choice_def create_dramatic_outcome_def Let_def o f)
  show "res_user_choices_made (fst (resolve_user_choice m n i c s)) = user_choices_made s + 1"
    by (simp add: resolve_user_choice_def create_dramatic_outcome_def Let_def o f)
  show "story_history (snd (resolve_user_choice m n i c s)) =
     story_history s @
       [Choice_resolution c (res_ai_narrative (fst (resolve_user_choice m n i c s)))
          (res_outcome (fst (resolve_user_choice m n i c s)))]"
    by (simp add: resolve_user_choice_def create_dramatic_outcome_def Let_def o f)
qed

lemma resolve_user_choice_fallback:
  "res_ai_narrative (fst (resolve_user_choice m None i c s)) =
     ''Your choice to '' @ c @ '' has immediate consequences in '' @ current_scene s
     @ ''. The situation evolves as you face the results of your decision.''"
  by (simp add: resolve_user_choice_def Let_def split: prod.splits)

subsection \<open>Continuing the narrative\<close>

lemma evolve_story_assigns:
  "n = 1 \<or> n = 2 \<or> n = 3 \<or> n = 4 \<Longrightarrow> snd (evolve_story n s) \<noteq> None"
  by (auto simp add: evolve_story_def Let_def)

lemma evolve_story_unassigned:
  "n \<noteq> 1 \<Longrightarrow> n \<noteq> 2 \<Longrightarrow> n \<noteq> 3 \<Longrightarrow> n \<noteq> 4 \<Longrightarrow> evolve_story n s = (s, None)"
  by (simp add: evolve_story_def Let_def)

lemma evolve_story_frame:
  "story_history (fst (evolve_story n s)) = story_history s"
  "user_choices_made (fst (evolve_story n s)) = user_choices_made s"
  by (simp_all add: evolve_story_def Let_def)

lemma continue_narrative_state:
  "user_choices_made (snd (continue_narrative s)) = user_choices_made s"
  "current_danger_level (snd (continue_narrative s)) = min 10 (3 + user_choices_made s * 2)"
proof -
  obtain s1 nc where e: "evolve_story (user_choices_made s) s = (s1, nc)"
    by (cases "evolve_story (user_choices_made s) s")
  from e evolve_story_frame(2) [of "user_choices_made s" s]
  have h: "user_choices_made s1 = user_choices_made s" by simp
  show "user_choices_made (snd (continue_narrative s)) = user_choices_made s"
    by (simp add: continue_narrative_def Let_def e h split: option.splits)
  show "current_danger_level (snd (continue_narrative s)) = min 10 (3 + user_choices_made s * 2)"
    by (simp add: continue_narrative_def Let_def e split: option.splits)
qed

lemma continue_narrative_returns:
  assumes "user_choices_made s = 1 \<or> user_choices_made s = 2 \<or> user_choices_made s = 3
           \<or> user_choices_made s = 4"
  shows "\<exists>r passage. fst (continue_narrative s) = Inr r \<and>
           story_history (snd (continue_narrative s)) =
             story_history s @
               [Story_continuation passage (cont_current_scene r) (user_choices_made s)]"
proof -
  obtain s1 nc where e: "evolve_story (user_choices_made s) s = (s1, nc)"
    by (cases "evolve_story (user_choices_made s) s")
  with evolve_story_assigns [OF assms, of s] obtain passage where nc: "nc = Some passage"
    by auto
  from e evolve_story_frame(1) [of "user_choices_made s" s]
  have h: "story_history s1 = story_history s" by simp
  show ?thesis
    by (simp add: continue_narrative_def Let_def e nc h)
qed

lemma continue_narrative_raises:
  assumes "user_choices_made s \<noteq> 1" "user_choices_made s \<noteq> 2" "user_choices_made s \<noteq> 3"
    "user_choices_made s \<noteq> 4"
  shows "fst (continue_narrative s) = Inl UnboundLocalError"
    and "story_history (snd (continue_narrative s)) = story_history s"
  by (simp_all add: continue_narrative_def Let_def evolve_story_unassigned [OF assms])

subsection \<open>The choice endpoint\<close>

lemma present_story_choice_state:
  "story_history (snd (present_story_choice r sit a b c s)) =
     story_history s @ [Choice_moment (cp_situation (fst (present_story_choice r sit a b c s)))
       (cp_choice_a (fst (present_story_choice r sit a b c s)))
       (cp_choice_b (fst (present_story_choice r sit a b c s)))
       (cp_choice_c (fst (present_story_choice r sit a b c s)))]"
  "user_choices_made (snd (present_story_choice r sit a b c s)) = user_choices_made s"
  "current_danger_level (snd (present_story_choice r sit a b c s)) = current_danger_level s"
  by (simp_all add: present_story_choice_def Let_def split: prod.splits)

lemma create_story_climax_state:
  "story_history (snd (create_story_climax m v i c s)) =
     story_history s @ [Story_climax c (cl_epic_climax_video (fst (create_story_climax m v i c s)))
        (cl_backup_image_result (fst (create_story_climax m v i c s)))]"
  "user_choices_made (snd (create_story_climax m v i c s)) = user_choices_made s"
  "current_danger_level (snd (create_story_climax m v i c s)) = 10"
  by (simp_all add: create_story_climax_def create_epic_climax_video_def
      generate_video_from_image_seed_def create_single_choice_image_def generate_consistent_image_def Let_def split: prod.splits option.splits)

lemma make_choice_final:
  assumes "agent_available env" "4 \<le> user_choices_made s"
  shows "\<exists>r. fst (make_choice env c s) = Inr r \<and> story_complete r \<and> choices r = []
            \<and> current_choice r = 5 \<and> choices_remaining r = 0"
    and "map event_type (drop (length (story_history s)) (story_history (snd (make_choice env c s))))
          = [''choice_resolution'', ''story_climax'']"
    and "user_choices_made (snd (make_choice env c s)) = user_choices_made s + 1"
proof -
  obtain cr s1 where r: "resolve_user_choice (media_generation_available env) (narrative_reply env)
                 (image_reply env) c s = (cr, s1)"
    by (cases "resolve_user_choice (media_generation_available env) (narrative_reply env)
                 (image_reply env) c s")
  from r resolve_user_choice_state [of "media_generation_available env" "narrative_reply env"
      "image_reply env" c s]
  have f: "res_user_choices_made cr = user_choices_made s + 1"
    "user_choices_made s1 = user_choices_made s + 1"
    "story_history s1 = story_history s @ [Choice_resolution c (res_ai_narrative cr) (res_outcome cr)]"
    by simp_all
  obtain cl s2 where k: "create_story_climax (media_generation_available env)
                       (climax_video_reply env) (climax_image_reply env) c s1 = (cl, s2)"
    by (cases "create_story_climax (media_generation_available env)
                       (climax_video_reply env) (climax_image_reply env) c s1")
  from k create_story_climax_state [of "media_generation_available env"
                       "climax_video_reply env" "climax_image_reply env" c s1]
  have g: "story_history s2 = story_history s1 @ [Story_climax c (cl_epic_climax_video cl) (cl_backup_image_result cl)]"
    "user_choices_made s2 = user_choices_made s1" by simp_all
  from assms(2) f have ge: "\<not> res_user_choices_made cr < 5" "\<not> user_choices_made s < 4" by simp_all
  show "\<exists>r. fst (make_choice env c s) = Inr r \<and> story_complete r \<and> choices r = []
            \<and> current_choice r = 5 \<and> choices_remaining r = 0"
    by (simp add: make_choice_def Let_def r k ge assms(1))
  show "map event_type (drop (length (story_history s)) (story_history (snd (make_choice env c s))))
          = [''choice_resolution'', ''story_climax'']"
    by (simp add: make_choice_def Let_def r k ge assms(1) f g)
  show "user_choices_made (snd (make_choice env c s)) = user_choices_made s + 1"
    by (simp add: make_choice_def Let_def r k ge assms(1) f g)
qed

lemma make_choice_earlier:
  assumes "agent_available env" "0 \<le> user_choices_made s" "user_choices_made s < 4"
  shows "\<exists>r. fst (make_choice env c s) = Inr r \<and> \<not> story_complete r \<and> length (choices r) = 3
            \<and> current_choice r = user_choices_made s + 1
            \<and> choices_remaining r = 5 - (user_choices_made s + 1)"
    and "map event_type (drop (length (story_history s)) (story_history (snd (make_choice env c s))))
          = [''choice_resolution'', ''story_continuation'', ''choice_moment'']"
    and "user_choices_made (snd (make_choice env c s)) = user_choices_made s + 1"
    and "current_danger_level (snd (make_choice env c s)) = min 10 (3 + (user_choices_made s + 1) * 2)"
proof -
  obtain cr s1 where r: "resolve_user_choice (media_generation_available env) (narrative_reply env)
                 (image_reply env) c s = (cr, s1)"
    by (cases "resolve_user_choice (media_generation_available env) (narrative_reply env)
                 (image_reply env) c s")
  from r resolve_user_choice_state [of "media_generation_available env" "narrative_reply env"
      "image_reply env" c s]
  have f: "res_user_choices_made cr = user_choices_made s + 1"
    "user_choices_made s1 = user_choices_made s + 1"
    "story_history s1 = story_history s @ [Choice_resolution c (res_ai_narrative cr) (res_outcome cr)]"
    by simp_all
  from assms f have lt: "res_user_choices_made cr < 5" "user_choices_made s < 4" by simp_all
  from assms f have "user_choices_made s1 = 1 \<or> user_choices_made s1 = 2 \<or> user_choices_made s1 = 3
           \<or> user_choices_made s1 = 4" by arith
  from continue_narrative_returns [OF this] obtain nr passage where
    n: "fst (continue_narrative s1) = Inr nr"
    and nh: "story_history (snd (continue_narrative s1)) =
             story_history s1 @ [Story_continuation passage (cont_current_scene nr) (user_choices_made s1)]"
    by blast
  obtain s2 where c2: "continue_narrative s1 = (Inr nr, s2)"
    using n by (cases "continue_narrative s1") simp
  from c2 nh continue_narrative_state [of s1]
  have h2: "story_history s2 = story_history s1 @ [Story_continuation passage (cont_current_scene nr) (user_choices_made s1)]"
    "user_choices_made s2 = user_choices_made s1"
    "current_danger_level s2 = min 10 (3 + user_choices_made s1 * 2)"
    by simp_all
  obtain pr s3 where p: "present_story_choice (choices_reply env) [] [] [] [] s2 = (pr, s3)"
    by (cases "present_story_choice (choices_reply env) [] [] [] [] s2")
  from p present_story_choice_state [of "choices_reply env" "[]" "[]" "[]" "[]" s2]
  have h3: "story_history s3 = story_history s2 @ [Choice_moment (cp_situation pr) (cp_choice_a pr) (cp_choice_b pr) (cp_choice_c pr)]"
    "user_choices_made s3 = user_choices_made s2"
    "current_danger_level s3 = current_danger_level s2"
    by simp_all
  show "\<exists>r. fst (make_choice env c s) = Inr r \<and> \<not> story_complete r \<and> length (choices r) = 3
            \<and> current_choice r = user_choices_made s + 1
            \<and> choices_remaining r = 5 - (user_choices_made s + 1)"
    by (simp add: make_choice_def Let_def r c2 p lt assms(1) f)
  show "map event_type (drop (length (story_history s)) (story_history (snd (make_choice env c s))))
          = [''choice_resolution'', ''story_continuation'', ''choice_moment'']"
    by (simp add: make_choice_def Let_def r c2 p lt assms(1) f h2 h3)
  show "user_choices_made (snd (make_choice env c s)) = user_choices_made s + 1"
    by (simp add: make_choice_def Let_def r c2 p lt assms(1) f h2 h3)
  show "current_danger_level (snd (make_choice env c s)) = min 10 (3 + (user_choices_made s + 1) * 2)"
    by (simp add: make_choice_def Let_def r c2 p lt assms(1) f h2 h3)
qed

subsection \<open>A session from a fresh process\<close>

lemma make_choice_final_danger:
  assumes "agent_available env" "4 \<le> user_choices_made s"
  shows "current_danger_level (snd (make_choice env c s)) = 10"
proof -
  obtain cr s1 where r: "resolve_user_choice (media_generation_available env) (narrative_reply env)
                 (image_reply env) c s = (cr, s1)"
    by (cases "resolve_user_choice (media_generation_available env) (narrative_reply env)
                 (image_reply env) c s")
  from r resolve_user_choice_state(4) [of "media_generation_available env" "narrative_reply env"
      "image_reply env" c s]
  have f: "res_user_choices_made cr = user_choices_made s + 1" by simp
  from assms(2) f have ge: "\<not> res_user_choices_made cr < 5" by simp
  obtain cl s2 where k: "create_story_climax (media_generation_available env)
                       (climax_video_reply env) (climax_image_reply env) c s1 = (cl, s2)"
    by (cases "create_story_climax (media_generation_available env)
                       (climax_video_reply env) (climax_image_reply env) c s1")
  from k create_story_climax_state(3) [of "media_generation_available env"
                       "climax_video_reply env" "climax_image_reply env" c s1]
  have g: "current_danger_level s2 = 10" by simp
  show ?thesis
    by (simp add: make_choice_def Let_def r k ge assms(1) g)
qed

lemma make_choices_snoc:
  "make_choices (xs @ [(env, c)]) s = snd (make_choice env c (make_choices xs s))"
  by (induction xs arbitrary: s) auto

lemma played_Suc:
  "played env r (Suc n) = snd (make_choice env ''A'' (played env r n))"
proof -
  have "replicate (Suc n) (env, ''A'') = replicate n (env, ''A'') @ [(env, ''A'')]"
    by (simp add: replicate_append_same)
  then show ?thesis
    by (simp only: played_def make_choices_snoc)
qed

lemma generate_establishing_scene_choices_made:
  "user_choices_made (snd (generate_establishing_scene m i l d s)) = user_choices_made s"
  by (cases i)
     (simp_all add: generate_establishing_scene_def generate_consistent_image_def Let_def)

lemma begin_opening_scene_choices_made:
  "user_choices_made (snd (begin_opening_scene m i s)) = user_choices_made s"
proof -
  obtain o1 s1 where g: "generate_establishing_scene m i (current_scene s) ''mysterious'' s = (o1, s1)"
    by (cases "generate_establishing_scene m i (current_scene s) ''mysterious'' s")
  from g generate_establishing_scene_choices_made [of m i "current_scene s" "''mysterious''" s]
  have "user_choices_made s1 = user_choices_made s" by simp
  then show ?thesis
    by (simp add: begin_opening_scene_def Let_def g)
qed

lemma start_new_adventure_choices_made:
  "user_choices_made (snd (start_new_adventure r s)) = 0"
  by (simp add: start_new_adventure_def Let_def split: prod.splits)

lemma start_story_choices_made:
  assumes "agent_available env"
  shows "user_choices_made (snd (start_story env r s)) = 0"
proof -
  obtain i1 s1 where a: "start_new_adventure r s = (i1, s1)"
    by (cases "start_new_adventure r s")
  obtain o2 s2 where b: "begin_opening_scene (media_generation_available env) (image_reply env) s1
      = (o2, s2)"
    by (cases "begin_opening_scene (media_generation_available env) (image_reply env) s1")
  obtain p3 s3 where c: "present_story_choice (choices_reply env) [] [] [] [] s2 = (p3, s3)"
    by (cases "present_story_choice (choices_reply env) [] [] [] [] s2")
  from a start_new_adventure_choices_made [of r s] have "user_choices_made s1 = 0" by simp
  with b begin_opening_scene_choices_made [of "media_generation_available env" "image_reply env" s1]
  have "user_choices_made s2 = 0" by simp
  with c present_story_choice_state(2) [of "choices_reply env" "[]" "[]" "[]" "[]" s2]
  have "user_choices_made s3 = 0" by simp
  then show ?thesis
    by (simp add: start_story_def Let_def a b c assms)
qed

lemma played_choices_made:
  "agent_available env \<Longrightarrow> user_choices_made (played env r n) = int n"
proof (induction n)
  case 0
  then show ?case by (simp add: played_def start_story_choices_made)
next
  case (Suc n)
  show ?case
  proof (cases "n < 4")
    case True
    with Suc make_choice_earlier(3) [of env "played env r n" "''A''"]
    show ?thesis by (simp add: played_Suc)
  next
    case False
    with Suc make_choice_final(3) [of env "played env r n" "''A''"]
    show ?thesis by (simp add: played_Suc)
  qed
qed

lemma played_danger_level:
  assumes "agent_available env"
  shows "n < 4 \<Longrightarrow> current_danger_level (played env r (Suc n)) = min 10 (5 + 2 * int n)"
    and "4 \<le> n \<Longrightarrow> current_danger_level (played env r (Suc n)) = 10"
  using assms make_choice_earlier(4) [of env "played env r n" "''A''"]
    make_choice_final_danger [of env "played env r n" "''A''"]
  by (simp_all add: played_Suc played_choices_made)

lemma start_new_adventure_frame:
  "characters_present (snd (start_new_adventure r s)) = characters_present s"
  "current_danger_level (snd (start_new_adventure r s)) = current_danger_level s"
  "generated_images (snd (start_new_adventure r s)) = generated_images s"
  "generated_videos (snd (start_new_adventure r s)) = generated_videos s"
  "generated_music (snd (start_new_adventure r s)) = generated_music s"
  "world_knowledge (snd (start_new_adventure r s)) = world_knowledge s"
  "character_references (visual_style (snd (start_new_adventure r s))) =
     character_references (visual_style s)"
  "location_references (visual_style (snd (start_new_adventure r s))) =
     location_references (visual_style s)"
  by (simp_all add: start_new_adventure_def Let_def split: prod.splits)

subsection \<open>The forest branch\<close>

lemma lower_forest: "sublist ''forest'' scene \<Longrightarrow> sublist ''forest'' (lower scene)"
proof -
  assume "sublist ''forest'' scene"
  then have "sublist (map lower_char ''forest'') (map lower_char scene)"
    by (rule map_mono_sublist)
  moreover have "map lower_char ''forest'' = ''forest''"
    by (simp add: lower_char_def)
  ultimately show ?thesis by (simp add: lower_def)
qed

lemma evolve_story_first_forest:
  assumes "sublist ''forest'' (lower (current_scene s))"
    "\<not> sublist ''cyberpunk'' (lower (current_scene s))"
    "\<not> sublist ''atlantis'' (lower (current_scene s))"
  shows "current_scene (fst (evolve_story 1 s)) =
           ''A mystical clearing where reality bends and magic flows freely''"
  using assms by (simp add: evolve_story_def Let_def)

lemma continue_narrative_scene:
  "current_scene (snd (continue_narrative s)) =
     current_scene (fst (evolve_story (user_choices_made s) s))"
  by (simp add: continue_narrative_def Let_def split: prod.splits option.splits)

subsection \<open>Scenes a run can reach\<close>

lemma sublist_append_sep:
  assumes "\<not> sublist xs ys" "\<not> sublist xs zs" "ys \<noteq> []" "last ys \<notin> set xs"
  shows "\<not> sublist xs (ys @ zs)"
proof
  assume "sublist xs (ys @ zs)"
  with assms(1,2) obtain xs1 xs2 where x: "xs = xs1 @ xs2" "suffix xs1 ys" "prefix xs2 zs"
    by (auto simp: sublist_append)
  show False
  proof (cases "xs1 = []")
    case True
    with x have "prefix xs zs" by simp
    then have "sublist xs zs" by (rule prefix_imp_sublist)
    with assms(2) show False ..
  next
    case False
    from x(2) obtain ws where "ys = ws @ xs1" by (auto simp: suffix_def)
    with False have "last ys = last xs1" by simp
    moreover from False have "last xs1 \<in> set xs1" by simp
    ultimately have "last ys \<in> set xs" using x(1) by simp
    with assms(4) show False ..
  qed
qed

lemma lower_append: "lower (p @ q) = lower p @ lower q"
  by (simp add: lower_def)

lemma no_forest_after_prefix:
  assumes "\<not> sublist ''forest'' (lower q)"
  shows "\<not> sublist ''forest'' (lower (''A deeper, more dangerous part of '' @ q))"
    and "\<not> sublist ''forest'' (lower (''A completely new location connected to '' @ q))"
    and "\<not> sublist ''forest'' (lower (''The climactic confrontation arising from '' @ q))"
    and "\<not> sublist ''forest'' (lower (''The ultimate threshold of '' @ q))"
    and "\<not> sublist ''forest'' (lower (''An immersive world based on: '' @ q))"
proof -
  have a: "\<not> sublist ''forest'' (lower ''A deeper, more dangerous part of '')"
    "\<not> sublist ''forest'' (lower ''A completely new location connected to '')"
    "\<not> sublist ''forest'' (lower ''The climactic confrontation arising from '')"
    "\<not> sublist ''forest'' (lower ''The ultimate threshold of '')"
    "\<not> sublist ''forest'' (lower ''An immersive world based on: '')"
    by code_simp+
  have b: "lower ''A deeper, more dangerous part of '' \<noteq> []"
    "lower ''A completely new location connected to '' \<noteq> []"
    "lower ''The climactic confrontation arising from '' \<noteq> []"
    "lower ''The ultimate threshold of '' \<noteq> []"
    "lower ''An immersive world based on: '' \<noteq> []"
    by (simp_all add: lower_def)
  have c: "last (lower ''A deeper, more dangerous part of '') \<notin> set ''forest''"
    "last (lower ''A completely new location connected to '') \<notin> set ''forest''"
    "last (lower ''The climactic confrontation arising from '') \<notin> set ''forest''"
    "last (lower ''The ultimate threshold of '') \<notin> set ''forest''"
    "last (lower ''An immersive world based on: '') \<notin> set ''forest''"
    by (simp_all add: lower_def lower_char_def)
  show "\<not> sublist ''forest'' (lower (''A deeper, more dangerous part of '' @ q))"
    unfolding lower_append by (rule sublist_append_sep [OF a(1) assms b(1) c(1)])
  show "\<not> sublist ''forest'' (lower (''A completely new location connected to '' @ q))"
    unfolding lower_append by (rule sublist_append_sep [OF a(2) assms b(2) c(2)])
  show "\<not> sublist ''forest'' (lower (''The climactic confrontation arising from '' @ q))"
    unfolding lower_append by (rule sublist_append_sep [OF a(3) assms b(3) c(3)])
  show "\<not> sublist ''forest'' (lower (''The ultimate threshold of '' @ q))"
    unfolding lower_append by (rule sublist_append_sep [OF a(4) assms b(4) c(4)])
  show "\<not> sublist ''forest'' (lower (''An immersive world based on: '' @ q))"
    unfolding lower_append by (rule sublist_append_sep [OF a(5) assms b(5) c(5)])
qed

lemma evolved_scenes_no_forest:
  "\<not> sublist ''forest'' (lower ''A hidden underground resistance hideout beneath Neo-Tokyo'')"
  "\<not> sublist ''forest'' (lower ''The ancient Atlantean throne room with mystical technology'')"
  "\<not> sublist ''forest'' (lower ''A mystical clearing where reality bends and magic flows freely'')"
  "\<not> sublist ''forest'' (lower ''The corporate zaibatsu tower's executive floors'')"
  "\<not> sublist ''forest'' (lower ''The abyssal depths where ancient leviathans guard Atlantean secrets'')"
  "\<not> sublist ''forest'' (lower ''The Shadowrealm where dark magic and light magic clash eternally'')"
  "\<not> sublist ''forest'' (lower ''The digital realm inside the neural network itself'')"
  "\<not> sublist ''forest'' (lower ''The timestream portal chamber where past and future Atlantis collide'')"
  "\<not> sublist ''forest'' (lower ''The World Tree's crown where cosmic forces converge'')"
  "\<not> sublist ''forest'' (lower ''The core of the Serpent's Eye AI system - reality's command center'')"
  "\<not> sublist ''forest'' (lower ''The moment of Atlantis's original fall - you can change everything'')"
  "\<not> sublist ''forest'' (lower ''The cosmic loom where reality's threads can be rewoven'')"
  by code_simp+

lemma evolve_story_no_forest:
  assumes "n = 1 \<or> n = 2 \<or> n = 3 \<or> n = 4"
  shows "\<not> sublist ''forest'' (lower (current_scene (fst (evolve_story n s))))"
  using assms
  by (elim disjE)
     (simp_all add: evolve_story_def Let_def evolved_scenes_no_forest no_forest_after_prefix
        del: append.simps)

lemma settings_keywords:
  "\<not> sublist ''forest'' (lower (sc_setting cyberpunk_detective_noir))"
  "\<not> sublist ''forest'' (lower (sc_setting dragons_lair_confrontation))"
  "\<not> sublist ''cyberpunk'' (lower (sc_setting enchanted_forest_mystery))"
  "\<not> sublist ''atlantis'' (lower (sc_setting enchanted_forest_mystery))"
  "\<not> sublist ''cyberpunk'' (lower (current_scene GameState))"
  "\<not> sublist ''atlantis'' (lower (current_scene GameState))"
  by code_simp+

lemma start_new_adventure_scene:
  "sublist ''forest'' (lower (current_scene (snd (start_new_adventure r s)))) \<longrightarrow>
     \<not> sublist ''cyberpunk'' (lower (current_scene (snd (start_new_adventure r s))))
     \<and> \<not> sublist ''atlantis'' (lower (current_scene (snd (start_new_adventure r s))))"
  by (simp add: start_new_adventure_def Let_def settings_keywords custom_scenario_def
        no_forest_after_prefix del: append.simps)

lemma begin_opening_scene_scene:
  "current_scene (snd (begin_opening_scene m i s)) = current_scene s"
proof -
  obtain o1 s1 where g: "generate_establishing_scene m i (current_scene s) ''mysterious'' s = (o1, s1)"
    by (cases "generate_establishing_scene m i (current_scene s) ''mysterious'' s")
  have "current_scene (snd (generate_establishing_scene m i (current_scene s) ''mysterious'' s))
      = current_scene s"
    by (cases i)
       (simp_all add: generate_establishing_scene_def generate_consistent_image_def Let_def)
  with g have "current_scene s1 = current_scene s" by simp
  then show ?thesis
    by (simp add: begin_opening_scene_def Let_def g)
qed

lemma present_story_choice_scene:
  "current_scene (snd (present_story_choice r sit a b c s)) = current_scene s"
  by (simp add: present_story_choice_def Let_def split: prod.splits)

lemma create_story_climax_scene:
  "current_scene (snd (create_story_climax m v i c s)) = current_scene s"
  by (simp add: create_story_climax_def create_epic_climax_video_def
      generate_video_from_image_seed_def create_single_choice_image_def
      generate_consistent_image_def Let_def split: prod.splits option.splits)

lemma reachable_forest_scene:
  assumes "reachable s"
  shows "sublist ''forest'' (lower (current_scene s)) \<longrightarrow>
     \<not> sublist ''cyberpunk'' (lower (current_scene s))
     \<and> \<not> sublist ''atlantis'' (lower (current_scene s))"
  using assms
proof (induction rule: reachable.induct)
  case fresh
  show ?case by (simp add: settings_keywords)
next
  case (started s request)
  show ?case by (rule start_new_adventure_scene)
next
  case (opened s m reply)
  then show ?case by (simp add: begin_opening_scene_scene)
next
  case (presented s reply situation a b c)
  then show ?case by (simp add: present_story_choice_scene)
next
  case (resolved s m text_reply reply chosen)
  then show ?case by (simp add: resolve_user_choice_state)
next
  case (continued s)
  show ?case
  proof (cases "user_choices_made s = 1 \<or> user_choices_made s = 2 \<or> user_choices_made s = 3
           \<or> user_choices_made s = 4")
    case True
    from evolve_story_no_forest [OF True, of s] show ?thesis
      by (simp add: continue_narrative_scene)
  next
    case False
    then have "evolve_story (user_choices_made s) s = (s, None)"
      by (simp add: evolve_story_unassigned)
    with continued.IH show ?thesis
      by (simp add: continue_narrative_scene)
  qed
next
  case (finished s m video_reply reply final)
  then show ?case by (simp add: create_story_climax_scene)
qed

subsection \<open>The scene table\<close>

lemma evolve_story_scene:
  "current_scene (fst (evolve_story 1 s)) =
     (if sublist ''cyberpunk'' (lower (current_scene s)) then
        ''A hidden underground resistance hideout beneath Neo-Tokyo''
      else if sublist ''atlantis'' (lower (current_scene s)) then
        ''The ancient Atlantean throne room with mystical technology''
      else if sublist ''forest'' (lower (current_scene s)) then
        ''A mystical clearing where reality bends and magic flows freely''
      else ''A deeper, more dangerous part of '' @ current_scene s)"
  "current_scene (fst (evolve_story 2 s)) =
     (if sublist ''cyberpunk'' (lower (current_scene s)) then
        ''The corporate zaibatsu tower's executive floors''
      else if sublist ''atlantis'' (lower (current_scene s)) then
        ''The abyssal depths where ancient leviathans guard Atlantean secrets''
      else if sublist ''forest'' (lower (current_scene s)) then
        ''The Shadowrealm where dark magic and light magic clash eternally''
      else ''A completely new location connected to '' @ current_scene s)"
  "current_scene (fst (evolve_story 3 s)) =
     (if sublist ''cyberpunk'' (lower (current_scene s)) then
        ''The digital realm inside the neural network itself''
      else if sublist ''atlantis'' (lower (current_scene s)) then
        ''The timestream portal chamber where past and future Atlantis collide''
      else if sublist ''forest'' (lower (current_scene s)) then
        ''The World Tree's crown where cosmic forces converge''
      else ''The climactic confrontation arising from '' @ current_scene s)"
  "current_scene (fst (evolve_story 4 s)) =
     (if sublist ''cyberpunk'' (lower (current_scene s)) then
        ''The core of the Serpent's Eye AI system - reality's command center''
      else if sublist ''atlantis'' (lower (current_scene s)) then
        ''The moment of Atlantis's original fall - you can change everything''
      else if sublist ''forest'' (lower (current_scene s)) then
        ''The cosmic loom where reality's threads can be rewoven''
      else ''The ultimate threshold of '' @ current_scene s)"
  by (simp_all add: evolve_story_def Let_def)

lemma evolve_story_scene_determined:
  assumes "current_scene s = current_scene s'"
  shows "current_scene (fst (evolve_story n s)) = current_scene (fst (evolve_story n s'))"
proof (cases "n = 1 \<or> n = 2 \<or> n = 3 \<or> n = 4")
  case True
  then consider "n = 1" | "n = 2" | "n = 3" | "n = 4" by blast
  then show ?thesis
  proof cases
    case 1
    with assms show ?thesis by (simp add: evolve_story_scene(1))
  next
    case 2
    with assms show ?thesis by (simp add: evolve_story_scene(2))
  next
    case 3
    with assms show ?thesis by (simp add: evolve_story_scene(3))
  next
    case 4
    with assms show ?thesis by (simp add: evolve_story_scene(4))
  qed
next
  case False
  with assms show ?thesis by (simp add: evolve_story_unassigned)
qed

section \<open>The claims\<close>

text \<open>
  C1. The source calls the danger level a 1-10 scale and \<^const>\<open>continue_narrative\<close> keeps
  it at most 10, but \<^const>\<open>resolve_user_choice\<close> adds one without a cap. In a fresh
  process, after the story is started and four choices are made the level is 10;
  resolving the fifth choice leaves 11, and the climax then lowers it to 10.
\<close>

theorem danger_level_above_scale:
  "user_choices_made (played offline ''a forest walk'' 4) = 4
   \<and> current_danger_level (played offline ''a forest walk'' 4) = 10
   \<and> current_danger_level
        (snd (resolve_user_choice False None None ''A'' (played offline ''a forest walk'' 4))) = 11
   \<and> current_danger_level (played offline ''a forest walk'' 5) = 10"
proof -
  have a: "agent_available offline" by (simp add: offline_def)
  have b: "user_choices_made (played offline ''a forest walk'' 4) = 4"
    using played_choices_made [OF a, of "''a forest walk''" 4] by simp
  have c: "current_danger_level (played offline ''a forest walk'' (Suc 3)) = 10"
    using played_danger_level(1) [OF a, of 3 "''a forest walk''"] by simp
  have d: "current_danger_level (played offline ''a forest walk'' (Suc 4)) = 10"
    using played_danger_level(2) [OF a, of 4 "''a forest walk''"] by simp
  have e: "Suc 3 = 4" "Suc 4 = 5" by simp_all
  from b c d show ?thesis
    by (simp only: e resolve_user_choice_state) simp
qed


text \<open>
  C2. The opening scene asks for an image only while the count is below one, but the
  image of a choice outcome is requested without a look at the count. With the provider
  delivering, the count is 1 after the opening scene and 3 after the first choice, with
  three entries in \<^verbatim>\<open>generated_images\<close>.
\<close>

theorem images_above_cap:
  "images (scene_media_count (played online ''a forest walk'' 0)) = 1
   \<and> images (scene_media_count (played online ''a forest walk'' 1)) = 3
   \<and> length (generated_images (played online ''a forest walk'' 1)) = 3"
  by code_simp

text \<open>
  C3, as the claim states it, fails: when an adventure with one choice made is followed
  by a new start, the danger level is still 5, not its initial 1, and the generated
  images and the stored location reference of the earlier adventure are still there.
\<close>

theorem start_new_adventure_keeps_prior_run:
  "current_danger_level GameState = 1
   \<and> current_danger_level
        (snd (start_new_adventure ''a dragon'' (played online ''a forest walk'' 1))) = 5
   \<and> generated_images
        (snd (start_new_adventure ''a dragon'' (played online ''a forest walk'' 1))) =
       [''generated_scene_20250101_120000.png'', ''generated_scene_20250101_120000.png'',
        ''generated_scene_20250101_120000.png'']
   \<and> location_references (visual_style
        (snd (start_new_adventure ''a dragon'' (played online ''a forest walk'' 1)))) =
       [(''An ancient forest where magic flows through twisted trees and glowing flowers'',
         ''generated_scene_20250101_120000.png'')]"
proof -
  have a: "current_danger_level GameState = 1" by (simp add: GameState_def)
  have b: "current_danger_level (played online ''a forest walk'' 1) = 5" by code_simp
  have c: "generated_images (played online ''a forest walk'' 1) =
       [''generated_scene_20250101_120000.png'', ''generated_scene_20250101_120000.png'',
        ''generated_scene_20250101_120000.png'']" by code_simp
  have d: "location_references (visual_style (played online ''a forest walk'' 1)) =
       [(''An ancient forest where magic flows through twisted trees and glowing flowers'',
         ''generated_scene_20250101_120000.png'')]" by code_simp
  from a b c d show ?thesis by (simp only: start_new_adventure_frame)
qed


text \<open>
  C3, amended. \<^const>\<open>start_new_adventure\<close> empties the history, zeroes the media counts
  and the choice counter, and sets scene, mood and art style from the scenario. The state
  it leaves is the old state with these six assignments and nothing else: the characters
  present, the inventory, the danger level, the lists of generated images, videos and
  music, the world knowledge, the audio state, and the rest of the visual style with the
  stored character and location references are as they were.
\<close>

theorem start_new_adventure_resets:
  "snd (start_new_adventure r s) =
     s\<lparr> current_scene := sc_setting (init_scenario (fst (start_new_adventure r s))),
        current_mood := ''mysterious'',
        visual_style :=
          (visual_style s)\<lparr> art_style :=
             sc_visual_style (init_scenario (fst (start_new_adventure r s))) \<rparr>,
        story_history := [],
        scene_media_count := \<lparr> images = 0, videos = 0, music = 0 \<rparr>,
        user_choices_made := 0 \<rparr>
   \<and> story_history (snd (start_new_adventure r s)) = []
   \<and> scene_media_count (snd (start_new_adventure r s)) = \<lparr> images = 0, videos = 0, music = 0 \<rparr>
   \<and> user_choices_made (snd (start_new_adventure r s)) = 0
   \<and> current_mood (snd (start_new_adventure r s)) = ''mysterious''
   \<and> current_scene (snd (start_new_adventure r s)) =
       sc_setting (init_scenario (fst (start_new_adventure r s)))
   \<and> art_style (visual_style (snd (start_new_adventure r s))) =
       sc_visual_style (init_scenario (fst (start_new_adventure r s)))
   \<and> characters_present (snd (start_new_adventure r s)) = characters_present s
   \<and> user_inventory (snd (start_new_adventure r s)) = user_inventory s
   \<and> current_danger_level (snd (start_new_adventure r s)) = current_danger_level s
   \<and> generated_images (snd (start_new_adventure r s)) = generated_images s
   \<and> generated_videos (snd (start_new_adventure r s)) = generated_videos s
   \<and> generated_music (snd (start_new_adventure r s)) = generated_music s
   \<and> world_knowledge (snd (start_new_adventure r s)) = world_knowledge s
   \<and> audio_state (snd (start_new_adventure r s)) = audio_state s
   \<and> color_palette (visual_style (snd (start_new_adventure r s))) =
       color_palette (visual_style s)
   \<and> style_seed (visual_style (snd (start_new_adventure r s))) = style_seed (visual_style s)
   \<and> character_references (visual_style (snd (start_new_adventure r s))) =
       character_references (visual_style s)
   \<and> location_references (visual_style (snd (start_new_adventure r s))) =
       location_references (visual_style s)"
  by (simp add: start_new_adventure_def Let_def split: prod.splits)


text \<open>
  C4. Through \<^const>\<open>make_choice\<close>, the choice that brings the counter from 4 to 5 is
  followed by the climax and by no continuation: the response is complete, has no
  choices, \<^verbatim>\<open>current_choice = 5\<close> and \<^verbatim>\<open>choices_remaining = 0\<close>. Each of the first four
  choices is followed by \<^const>\<open>continue_narrative\<close> and a new presentation of three
  choices, in a response that is not complete. The route is read off the history
  entries the request appends.
\<close>

theorem make_choice_routing:
  "(agent_available env \<and> user_choices_made s = 4 \<longrightarrow>
      (\<exists>r. fst (make_choice env c s) = Inr r \<and> story_complete r \<and> choices r = []
            \<and> current_choice r = 5 \<and> choices_remaining r = 0)
      \<and> map event_type
            (drop (length (story_history s)) (story_history (snd (make_choice env c s))))
          = [''choice_resolution'', ''story_climax''])
   \<and> (agent_available env \<and> 0 \<le> user_choices_made s \<and> user_choices_made s < 4 \<longrightarrow>
      (\<exists>r. fst (make_choice env c s) = Inr r \<and> \<not> story_complete r \<and> length (choices r) = 3
            \<and> current_choice r = user_choices_made s + 1
            \<and> choices_remaining r = 5 - (user_choices_made s + 1))
      \<and> map event_type
            (drop (length (story_history s)) (story_history (snd (make_choice env c s))))
          = [''choice_resolution'', ''story_continuation'', ''choice_moment''])"
  using make_choice_final(1,2) [of env s c] make_choice_earlier(1,2) [of env s c]
  by simp

theorem make_choice_routing_witness:
  "agent_available offline
   \<and> user_choices_made (played offline ''a forest walk'' 4) = 4
   \<and> map event_type
        (drop (length (story_history (played offline ''a forest walk'' 4)))
           (story_history (snd (make_choice offline ''A'' (played offline ''a forest walk'' 4)))))
      = [''choice_resolution'', ''story_climax'']
   \<and> 0 \<le> user_choices_made (played offline ''a forest walk'' 0)
   \<and> user_choices_made (played offline ''a forest walk'' 0) < 4
   \<and> map event_type
        (drop (length (story_history (played offline ''a forest walk'' 0)))
           (story_history (snd (make_choice offline ''A'' (played offline ''a forest walk'' 0)))))
      = [''choice_resolution'', ''story_continuation'', ''choice_moment'']"
proof -
  have a: "agent_available offline" by (simp add: offline_def)
  have b: "user_choices_made (played offline ''a forest walk'' 4) = 4"
    using played_choices_made [OF a, of "''a forest walk''" 4] by simp
  have c: "user_choices_made (played offline ''a forest walk'' 0) = 0"
    using played_choices_made [OF a, of "''a forest walk''" 0] by simp
  show ?thesis
    using make_choice_routing [of offline "played offline ''a forest walk'' 4" "''A''"]
      make_choice_routing [of offline "played offline ''a forest walk'' 0" "''A''"]
      a b c by simp
qed

text \<open>
  C5, as the claim states it, fails: after five choices a sixth request is not answered
  with an error, it is handled, and the counter is 6.
\<close>

theorem sixth_choice_is_processed:
  "user_choices_made (played offline ''a forest walk'' 5) = 5
   \<and> \<not> isl (fst (make_choice offline ''A'' (played offline ''a forest walk'' 5)))
   \<and> user_choices_made (snd (make_choice offline ''A'' (played offline ''a forest walk'' 5))) = 6"
proof -
  have a: "agent_available offline" by (simp add: offline_def)
  have b: "user_choices_made (played offline ''a forest walk'' 5) = 5"
    using played_choices_made [OF a, of "''a forest walk''" 5] by simp
  then have c: "4 \<le> user_choices_made (played offline ''a forest walk'' 5)" by simp
  from make_choice_final(1) [OF a c, of "''A''"]
  have d: "\<not> isl (fst (make_choice offline ''A'' (played offline ''a forest walk'' 5)))"
    by auto
  from make_choice_final(3) [OF a c, of "''A''"] b
  have e: "user_choices_made (snd (make_choice offline ''A'' (played offline ''a forest walk'' 5))) = 6"
    by simp
  from b d e show ?thesis by simp
qed


text \<open>
  C5, amended. Every resolved choice raises the counter by exactly one, whatever its
  value: there is no upper bound. A request made when four or more choices are resolved
  is handled like the fifth: the choice is resolved and a climax is created once more
  (the history gains a resolution and a climax entry and the danger level is 10), the
  response is complete with no choices, \<^verbatim>\<open>current_choice = 5\<close> and
  \<^verbatim>\<open>choices_remaining = 0\<close>, and the counter is one higher than before.
\<close>

theorem choices_made_unbounded:
  "user_choices_made (snd (resolve_user_choice m n i c s)) = user_choices_made s + 1
   \<and> (agent_available env \<and> 4 \<le> user_choices_made s \<longrightarrow>
        (\<exists>r. fst (make_choice env c s) = Inr r \<and> story_complete r \<and> choices r = []
              \<and> current_choice r = 5 \<and> choices_remaining r = 0)
        \<and> map event_type
              (drop (length (story_history s)) (story_history (snd (make_choice env c s))))
            = [''choice_resolution'', ''story_climax'']
        \<and> current_danger_level (snd (make_choice env c s)) = 10
        \<and> user_choices_made (snd (make_choice env c s)) = user_choices_made s + 1)
   \<and> (agent_available env \<and> 0 \<le> user_choices_made s \<and> user_choices_made s < 4 \<longrightarrow>
        user_choices_made (snd (make_choice env c s)) = user_choices_made s + 1)"
  using make_choice_final [of env s c] make_choice_final_danger [of env s c]
    make_choice_earlier(3) [of env s c]
  by (simp add: resolve_user_choice_state)


theorem choices_made_unbounded_witness:
  "agent_available offline
   \<and> 4 \<le> user_choices_made (played offline ''a forest walk'' 5)
   \<and> map event_type
        (drop (length (story_history (played offline ''a forest walk'' 5)))
           (story_history (snd (make_choice offline ''A'' (played offline ''a forest walk'' 5)))))
      = [''choice_resolution'', ''story_climax'']
   \<and> user_choices_made (snd (make_choice offline ''A'' (played offline ''a forest walk'' 5))) = 6
   \<and> 0 \<le> user_choices_made (played offline ''a forest walk'' 0)
   \<and> user_choices_made (played offline ''a forest walk'' 0) < 4
   \<and> user_choices_made (snd (make_choice offline ''A'' (played offline ''a forest walk'' 0))) = 1"
proof -
  have a: "agent_available offline" by (simp add: offline_def)
  have b: "user_choices_made (played offline ''a forest walk'' 5) = 5"
    using played_choices_made [OF a, of "''a forest walk''" 5] by simp
  have c: "user_choices_made (played offline ''a forest walk'' 0) = 0"
    using played_choices_made [OF a, of "''a forest walk''" 0] by simp
  show ?thesis
    using choices_made_unbounded [of False None None "''A''" "played offline ''a forest walk'' 5" offline]
      choices_made_unbounded [of False None None "''A''" "played offline ''a forest walk'' 0" offline]
      a b c by simp
qed


text \<open>
  C6. When the text service fails while a choice is resolved, the operation still returns:
  its narrative is the fixed sentence built around the chosen option and the current
  scene, which is not empty and contains both word for word; the choice counter and the
  danger level end where they end when the service answers, one above their old values.
  (\<^const>\<open>resolve_user_choice\<close> has no error result: no path of the source raises.)
\<close>

theorem resolve_user_choice_text_failure:
  "res_ai_narrative (fst (resolve_user_choice m None i chosen_option s)) =
     ''Your choice to '' @ chosen_option @ '' has immediate consequences in ''
     @ current_scene s
     @ ''. The situation evolves as you face the results of your decision.''
   \<and> res_ai_narrative (fst (resolve_user_choice m None i chosen_option s)) \<noteq> []
   \<and> sublist chosen_option (res_ai_narrative (fst (resolve_user_choice m None i chosen_option s)))
   \<and> sublist (current_scene s)
        (res_ai_narrative (fst (resolve_user_choice m None i chosen_option s)))
   \<and> user_choices_made (snd (resolve_user_choice m None i chosen_option s)) =
       user_choices_made (snd (resolve_user_choice m (Some text) i chosen_option s))
   \<and> current_danger_level (snd (resolve_user_choice m None i chosen_option s)) =
       current_danger_level (snd (resolve_user_choice m (Some text) i chosen_option s))
   \<and> user_choices_made (snd (resolve_user_choice m None i chosen_option s)) =
       user_choices_made s + 1
   \<and> current_danger_level (snd (resolve_user_choice m None i chosen_option s)) =
       current_danger_level s + 1"
proof -
  let ?n = "res_ai_narrative (fst (resolve_user_choice m None i chosen_option s))"
  have n: "?n = ''Your choice to '' @ chosen_option @ ('' has immediate consequences in ''
     @ current_scene s
     @ ''. The situation evolves as you face the results of your decision.'')"
    by (simp add: resolve_user_choice_fallback)
  have a: "sublist chosen_option ?n"
    unfolding n by (rule sublist_appendI)
  have n': "?n = (''Your choice to '' @ chosen_option @ '' has immediate consequences in '')
     @ current_scene s
     @ ''. The situation evolves as you face the results of your decision.''"
    by (simp add: resolve_user_choice_fallback)
  have b: "sublist (current_scene s) ?n"
    unfolding n' by (rule sublist_appendI)
  have c: "?n \<noteq> []"
    by (simp add: resolve_user_choice_fallback)
  show ?thesis
    using a b c by (simp add: resolve_user_choice_state resolve_user_choice_fallback)
qed

text \<open>
  C7. \<^const>\<open>continue_narrative\<close> calls no service: the new scene is looked up by the
  number of choices made and the first of the keywords cyberpunk, atlantis, forest found
  in the lowered current scene, with a branch for scenes that have none of them, so two
  states with the same scene and the same number of choices get the same new scene and
  danger level. The danger level becomes \<open>min 10 (3 + 2 * choices)\<close>: 5, 7, 9, 10 for 1,
  2, 3, 4 choices. In every state a run can be in, with one choice made and a scene that
  contains "forest", the new scene is the mystical clearing and the danger level is 5:
  no scene the operations write has "forest" together with an earlier keyword.
\<close>

theorem continue_narrative_forest_and_danger:
  "(user_choices_made s \<in> {1, 2, 3, 4} \<longrightarrow>
      current_danger_level (snd (continue_narrative s)) = min 10 (3 + 2 * user_choices_made s))
   \<and> (user_choices_made s = 1 \<longrightarrow> current_danger_level (snd (continue_narrative s)) = 5)
   \<and> (user_choices_made s = 2 \<longrightarrow> current_danger_level (snd (continue_narrative s)) = 7)
   \<and> (user_choices_made s = 3 \<longrightarrow> current_danger_level (snd (continue_narrative s)) = 9)
   \<and> (user_choices_made s = 4 \<longrightarrow> current_danger_level (snd (continue_narrative s)) = 10)
   \<and> (user_choices_made s = 1 \<longrightarrow>
        current_scene (snd (continue_narrative s)) =
          (if sublist ''cyberpunk'' (lower (current_scene s)) then
             ''A hidden underground resistance hideout beneath Neo-Tokyo''
           else if sublist ''atlantis'' (lower (current_scene s)) then
             ''The ancient Atlantean throne room with mystical technology''
           else if sublist ''forest'' (lower (current_scene s)) then
             ''A mystical clearing where reality bends and magic flows freely''
           else ''A deeper, more dangerous part of '' @ current_scene s))
   \<and> (user_choices_made s = 2 \<longrightarrow>
        current_scene (snd (continue_narrative s)) =
          (if sublist ''cyberpunk'' (lower (current_scene s)) then
             ''The corporate zaibatsu tower's executive floors''
           else if sublist ''atlantis'' (lower (current_scene s)) then
             ''The abyssal depths where ancient leviathans guard Atlantean secrets''
           else if sublist ''forest'' (lower (current_scene s)) then
             ''The Shadowrealm where dark magic and light magic clash eternally''
           else ''A completely new location connected to '' @ current_scene s))
   \<and> (user_choices_made s = 3 \<longrightarrow>
        current_scene (snd (continue_narrative s)) =
          (if sublist ''cyberpunk'' (lower (current_scene s)) then
             ''The digital realm inside the neural network itself''
           else if sublist ''atlantis'' (lower (current_scene s)) then
             ''The timestream portal chamber where past and future Atlantis collide''
           else if sublist ''forest'' (lower (current_scene s)) then
             ''The World Tree's crown where cosmic forces converge''
           else ''The climactic confrontation arising from '' @ current_scene s))
   \<and> (user_choices_made s = 4 \<longrightarrow>
        current_scene (snd (continue_narrative s)) =
          (if sublist ''cyberpunk'' (lower (current_scene s)) then
             ''The core of the Serpent's Eye AI system - reality's command center''
           else if sublist ''atlantis'' (lower (current_scene s)) then
             ''The moment of Atlantis's original fall - you can change everything''
           else if sublist ''forest'' (lower (current_scene s)) then
             ''The cosmic loom where reality's threads can be rewoven''
           else ''The ultimate threshold of '' @ current_scene s))
   \<and> (current_scene s = current_scene s' \<and> user_choices_made s = user_choices_made s' \<longrightarrow>
        current_scene (snd (continue_narrative s)) = current_scene (snd (continue_narrative s'))
        \<and> current_danger_level (snd (continue_narrative s)) =
            current_danger_level (snd (continue_narrative s')))
   \<and> (reachable s \<and> user_choices_made s = 1 \<and> sublist ''forest'' (current_scene s) \<longrightarrow>
        current_scene (snd (continue_narrative s)) =
          ''A mystical clearing where reality bends and magic flows freely''
        \<and> current_danger_level (snd (continue_narrative s)) = 5)"
proof -
  have d: "user_choices_made s \<in> {1, 2, 3, 4} \<longrightarrow>
      current_danger_level (snd (continue_narrative s)) = min 10 (3 + 2 * user_choices_made s)"
    by (simp add: continue_narrative_state)
  have d1: "user_choices_made s = 1 \<longrightarrow> current_danger_level (snd (continue_narrative s)) = 5"
    and d2: "user_choices_made s = 2 \<longrightarrow> current_danger_level (snd (continue_narrative s)) = 7"
    and d3: "user_choices_made s = 3 \<longrightarrow> current_danger_level (snd (continue_narrative s)) = 9"
    and d4: "user_choices_made s = 4 \<longrightarrow> current_danger_level (snd (continue_narrative s)) = 10"
    by (simp_all add: continue_narrative_state)
  have t1: "user_choices_made s = 1 \<longrightarrow>
        current_scene (snd (continue_narrative s)) =
          (if sublist ''cyberpunk'' (lower (current_scene s)) then
             ''A hidden underground resistance hideout beneath Neo-Tokyo''
           else if sublist ''atlantis'' (lower (current_scene s)) then
             ''The ancient Atlantean throne room with mystical technology''
           else if sublist ''forest'' (lower (current_scene s)) then
             ''A mystical clearing where reality bends and magic flows freely''
           else ''A deeper, more dangerous part of '' @ current_scene s)"
    using evolve_story_scene(1) [of s] by (simp add: continue_narrative_scene)
  have t2: "user_choices_made s = 2 \<longrightarrow>
        current_scene (snd (continue_narrative s)) =
          (if sublist ''cyberpunk'' (lower (current_scene s)) then
             ''The corporate zaibatsu tower's executive floors''
           else if sublist ''atlantis'' (lower (current_scene s)) then
             ''The abyssal depths where ancient leviathans guard Atlantean secrets''
           else if sublist ''forest'' (lower (current_scene s)) then
             ''The Shadowrealm where dark magic and light magic clash eternally''
           else ''A completely new location connected to '' @ current_scene s)"
    using evolve_story_scene(2) [of s] by (simp add: continue_narrative_scene)
  have t3: "user_choices_made s = 3 \<longrightarrow>
        current_scene (snd (continue_narrative s)) =
          (if sublist ''cyberpunk'' (lower (current_scene s)) then
             ''The digital realm inside the neural network itself''
           else if sublist ''atlantis'' (lower (current_scene s)) then
             ''The timestream portal chamber where past and future Atlantis collide''
           else if sublist ''forest'' (lower (current_scene s)) then
             ''The World Tree's crown where cosmic forces converge''
           else ''The climactic confrontation arising from '' @ current_scene s)"
    using evolve_story_scene(3) [of s] by (simp add: continue_narrative_scene)
  have t4: "user_choices_made s = 4 \<longrightarrow>
        current_scene (snd (continue_narrative s)) =
          (if sublist ''cyberpunk'' (lower (current_scene s)) then
             ''The core of the Serpent's Eye AI system - reality's command center''
           else if sublist ''atlantis'' (lower (current_scene s)) then
             ''The moment of Atlantis's original fall - you can change everything''
           else if sublist ''forest'' (lower (current_scene s)) then
             ''The cosmic loom where reality's threads can be rewoven''
           else ''The ultimate threshold of '' @ current_scene s)"
    using evolve_story_scene(4) [of s] by (simp add: continue_narrative_scene)
  have e: "current_scene s = current_scene s' \<and> user_choices_made s = user_choices_made s' \<longrightarrow>
        current_scene (snd (continue_narrative s)) = current_scene (snd (continue_narrative s'))
        \<and> current_danger_level (snd (continue_narrative s)) =
            current_danger_level (snd (continue_narrative s'))"
    using evolve_story_scene_determined [of s s' "user_choices_made s'"]
    by (simp add: continue_narrative_scene continue_narrative_state)
  have f: "reachable s \<and> user_choices_made s = 1 \<and> sublist ''forest'' (current_scene s) \<longrightarrow>
        current_scene (snd (continue_narrative s)) =
          ''A mystical clearing where reality bends and magic flows freely''
        \<and> current_danger_level (snd (continue_narrative s)) = 5"
  proof (intro impI, elim conjE)
    assume r: "reachable s" and u: "user_choices_made s = 1"
      and w: "sublist ''forest'' (current_scene s)"
    from w have l: "sublist ''forest'' (lower (current_scene s))" by (rule lower_forest)
    with reachable_forest_scene [OF r]
    have k: "\<not> sublist ''cyberpunk'' (lower (current_scene s))"
      "\<not> sublist ''atlantis'' (lower (current_scene s))" by simp_all
    from evolve_story_first_forest [OF l k] u d1
    show "current_scene (snd (continue_narrative s)) =
          ''A mystical clearing where reality bends and magic flows freely''
        \<and> current_danger_level (snd (continue_narrative s)) = 5"
      by (simp add: continue_narrative_scene)
  qed
  from d d1 d2 d3 d4 t1 t2 t3 t4 e f show ?thesis by (intro conjI)
qed


theorem continue_narrative_forest_and_danger_witness:
  "reachable (snd (resolve_user_choice False None None ''A''
      (snd (start_new_adventure ''a forest walk'' GameState))))
   \<and> user_choices_made (snd (resolve_user_choice False None None ''A''
      (snd (start_new_adventure ''a forest walk'' GameState)))) = 1
   \<and> sublist ''forest'' (current_scene (snd (resolve_user_choice False None None ''A''
      (snd (start_new_adventure ''a forest walk'' GameState)))))
   \<and> current_scene (snd (continue_narrative (snd (resolve_user_choice False None None ''A''
      (snd (start_new_adventure ''a forest walk'' GameState)))))) =
       ''A mystical clearing where reality bends and magic flows freely''
   \<and> current_danger_level (snd (continue_narrative (snd (resolve_user_choice False None None ''A''
      (snd (start_new_adventure ''a forest walk'' GameState)))))) = 5"
proof -
  let ?s = "snd (resolve_user_choice False None None ''A''
      (snd (start_new_adventure ''a forest walk'' GameState)))"
  have a: "reachable ?s"
    by (intro reachable.resolved reachable.started reachable.fresh)
  have b: "user_choices_made ?s = 1"
    by (simp add: resolve_user_choice_state start_new_adventure_choices_made)
  have "current_scene (snd (start_new_adventure ''a forest walk'' GameState)) =
      ''An ancient forest where magic flows through twisted trees and glowing flowers''"
    by code_simp
  then have c: "current_scene ?s =
      ''An ancient forest where magic flows through twisted trees and glowing flowers''"
    by (simp add: resolve_user_choice_state)
  have "sublist ''forest''
      ''An ancient forest where magic flows through twisted trees and glowing flowers''"
    by code_simp
  with c have d: "sublist ''forest'' (current_scene ?s)" by simp
  from continue_narrative_forest_and_danger [of ?s] a b d
  have "current_scene (snd (continue_narrative ?s)) =
          ''A mystical clearing where reality bends and magic flows freely''
        \<and> current_danger_level (snd (continue_narrative ?s)) = 5"
    by blast
  with a b d show ?thesis by blast
qed


text \<open>
  C8. \<^const>\<open>start_new_adventure\<close> is a function of the request and the state, with no
  call to the outside, so two runs from one state agree in everything. More is true:
  the result it returns, and the scene, mood and art style it sets, are the same from any
  two states. The scenario is chosen by the first group of keywords found in the lowered
  request: cyberpunk or detective; then fantasy, knight or dragon; then forest or magic;
  otherwise the custom scenario, whose setting ends with the request text.
\<close>

theorem start_new_adventure_deterministic:
  "fst (start_new_adventure r s1) = fst (start_new_adventure r s2)
   \<and> current_scene (snd (start_new_adventure r s1)) =
       current_scene (snd (start_new_adventure r s2))
   \<and> current_mood (snd (start_new_adventure r s1)) =
       current_mood (snd (start_new_adventure r s2))
   \<and> art_style (visual_style (snd (start_new_adventure r s1))) =
       art_style (visual_style (snd (start_new_adventure r s2)))
   \<and> current_scene (snd (start_new_adventure r s1)) =
       sc_setting (init_scenario (fst (start_new_adventure r s1)))
   \<and> current_mood (snd (start_new_adventure r s1)) = ''mysterious''
   \<and> art_style (visual_style (snd (start_new_adventure r s1))) =
       sc_visual_style (init_scenario (fst (start_new_adventure r s1)))
   \<and> (sublist ''cyberpunk'' (lower r) \<or> sublist ''detective'' (lower r) \<longrightarrow>
        init_story_type (fst (start_new_adventure r s1)) = ''cyberpunk''
        \<and> init_scenario (fst (start_new_adventure r s1)) = cyberpunk_detective_noir)
   \<and> (\<not> (sublist ''cyberpunk'' (lower r) \<or> sublist ''detective'' (lower r))
        \<and> (sublist ''fantasy'' (lower r) \<or> sublist ''knight'' (lower r)
             \<or> sublist ''dragon'' (lower r)) \<longrightarrow>
        init_story_type (fst (start_new_adventure r s1)) = ''fantasy''
        \<and> init_scenario (fst (start_new_adventure r s1)) = dragons_lair_confrontation)
   \<and> (\<not> (sublist ''cyberpunk'' (lower r) \<or> sublist ''detective'' (lower r))
        \<and> \<not> (sublist ''fantasy'' (lower r) \<or> sublist ''knight'' (lower r)
               \<or> sublist ''dragon'' (lower r))
        \<and> (sublist ''forest'' (lower r) \<or> sublist ''magic'' (lower r)) \<longrightarrow>
        init_story_type (fst (start_new_adventure r s1)) = ''mystical''
        \<and> init_scenario (fst (start_new_adventure r s1)) = enchanted_forest_mystery)
   \<and> (\<not> (sublist ''cyberpunk'' (lower r) \<or> sublist ''detective'' (lower r))
        \<and> \<not> (sublist ''fantasy'' (lower r) \<or> sublist ''knight'' (lower r)
               \<or> sublist ''dragon'' (lower r))
        \<and> \<not> (sublist ''forest'' (lower r) \<or> sublist ''magic'' (lower r)) \<longrightarrow>
        init_story_type (fst (start_new_adventure r s1)) = ''adventure''
        \<and> init_scenario (fst (start_new_adventure r s1)) = custom_scenario r
        \<and> current_scene (snd (start_new_adventure r s1)) =
            ''An immersive world based on: '' @ r)"
  by (simp add: start_new_adventure_def Let_def custom_scenario_def)

theorem start_new_adventure_deterministic_witness:
  "\<not> (sublist ''cyberpunk'' (lower ''The Dragon of the forest'')
          \<or> sublist ''detective'' (lower ''The Dragon of the forest''))
   \<and> (sublist ''fantasy'' (lower ''The Dragon of the forest'')
        \<or> sublist ''knight'' (lower ''The Dragon of the forest'')
        \<or> sublist ''dragon'' (lower ''The Dragon of the forest''))
   \<and> init_story_type (fst (start_new_adventure ''The Dragon of the forest'' GameState))
       = ''fantasy''
   \<and> current_scene (snd (start_new_adventure ''The Dragon of the forest'' GameState)) =
       ''The volcanic lair of an ancient dragon filled with treasures and dangerous magic''
   \<and> current_scene (snd (start_new_adventure ''The Dragon of the forest''
        (played online ''a forest walk'' 1))) =
       ''The volcanic lair of an ancient dragon filled with treasures and dangerous magic''"
proof -
  note t = start_new_adventure_deterministic
    [of "''The Dragon of the forest''" GameState "played online ''a forest walk'' 1"]
  have b: "\<not> (sublist ''cyberpunk'' (lower ''The Dragon of the forest'')
          \<or> sublist ''detective'' (lower ''The Dragon of the forest''))" by code_simp
  have c: "sublist ''fantasy'' (lower ''The Dragon of the forest'')
        \<or> sublist ''knight'' (lower ''The Dragon of the forest'')
        \<or> sublist ''dragon'' (lower ''The Dragon of the forest'')" by code_simp
  from t b c
  have k: "init_story_type (fst (start_new_adventure ''The Dragon of the forest'' GameState))
       = ''fantasy''"
    and l: "init_scenario (fst (start_new_adventure ''The Dragon of the forest'' GameState))
       = dragons_lair_confrontation"
    by blast+
  from t
  have e: "current_scene (snd (start_new_adventure ''The Dragon of the forest'' GameState)) =
       sc_setting (init_scenario (fst (start_new_adventure ''The Dragon of the forest'' GameState)))"
    and f: "current_scene (snd (start_new_adventure ''The Dragon of the forest'' GameState)) =
       current_scene (snd (start_new_adventure ''The Dragon of the forest''
          (played online ''a forest walk'' 1)))"
    by blast+
  have g: "sc_setting dragons_lair_confrontation =
       ''The volcanic lair of an ancient dragon filled with treasures and dangerous magic''"
    by (simp add: dragons_lair_confrontation_def)
  from e l g
  have h: "current_scene (snd (start_new_adventure ''The Dragon of the forest'' GameState)) =
       ''The volcanic lair of an ancient dragon filled with treasures and dangerous magic''"
    by simp
  from h f
  have i: "current_scene (snd (start_new_adventure ''The Dragon of the forest''
        (played online ''a forest walk'' 1))) =
       ''The volcanic lair of an ancient dragon filled with treasures and dangerous magic''"
    by simp
  from b c k h i show ?thesis by blast
qed

text \<open>
  C9. Whenever the image provider delivers for \<^const>\<open>create_single_choice_image\<close>, the
  file name is in \<^verbatim>\<open>generated_images\<close> twice more and the image count is two higher:
  once from \<^const>\<open>generate_consistent_image\<close>, once from the caller. Resolving a choice
  with a delivered image does the same to the state.
\<close>

theorem choice_image_recorded_twice:
  "fst (create_single_choice_image True (Some timestamp) s) =
     Some (''generated_scene_'' @ timestamp @ ''.png'')
   \<and> generated_images (snd (generate_consistent_image (Some timestamp) s)) =
       generated_images s @ [''generated_scene_'' @ timestamp @ ''.png'']
   \<and> images (scene_media_count (snd (generate_consistent_image (Some timestamp) s))) =
       images (scene_media_count s) + 1
   \<and> generated_images (snd (create_single_choice_image True (Some timestamp) s)) =
       generated_images s @
         [''generated_scene_'' @ timestamp @ ''.png'', ''generated_scene_'' @ timestamp @ ''.png'']
   \<and> images (scene_media_count (snd (create_single_choice_image True (Some timestamp) s))) =
       images (scene_media_count s) + 2
   \<and> generated_images (snd (resolve_user_choice True n (Some timestamp) c s)) =
       generated_images s @
         [''generated_scene_'' @ timestamp @ ''.png'', ''generated_scene_'' @ timestamp @ ''.png'']
   \<and> images (scene_media_count (snd (resolve_user_choice True n (Some timestamp) c s))) =
       images (scene_media_count s) + 2"
  by (simp add: create_single_choice_image_success resolve_user_choice_def
        create_dramatic_outcome_def generate_consistent_image_def Let_def)

text \<open>
  C10. \<^const>\<open>continue_narrative\<close> returns a result exactly when the number of choices made
  is 1, 2, 3 or 4. For every other number no passage is assigned: the operation raises,
  and the history has no new entry.
\<close>

theorem continue_narrative_returns_iff:
  "(user_choices_made s \<in> {1, 2, 3, 4} \<longrightarrow> (\<exists>r. fst (continue_narrative s) = Inr r))
   \<and> (user_choices_made s \<notin> {1, 2, 3, 4} \<longrightarrow>
        snd (evolve_story (user_choices_made s) s) = None
        \<and> fst (continue_narrative s) = Inl UnboundLocalError
        \<and> story_history (snd (continue_narrative s)) = story_history s)"
proof (cases "user_choices_made s \<in> {1, 2, 3, 4}")
  case True
  then have "user_choices_made s = 1 \<or> user_choices_made s = 2 \<or> user_choices_made s = 3
           \<or> user_choices_made s = 4" by simp
  from continue_narrative_returns [OF this] True show ?thesis by blast
next
  case False
  then have n: "user_choices_made s \<noteq> 1" "user_choices_made s \<noteq> 2" "user_choices_made s \<noteq> 3"
    "user_choices_made s \<noteq> 4" by simp_all
  from continue_narrative_raises [OF n] evolve_story_unassigned [OF n, of s] False
  show ?thesis by simp
qed

theorem continue_narrative_returns_iff_witness:
  "user_choices_made GameState \<notin> {1, 2, 3, 4}
   \<and> fst (continue_narrative GameState) = Inl UnboundLocalError
   \<and> user_choices_made (GameState\<lparr> user_choices_made := 5 \<rparr>) \<notin> {1, 2, 3, 4}
   \<and> fst (continue_narrative (GameState\<lparr> user_choices_made := 5 \<rparr>)) = Inl UnboundLocalError
   \<and> user_choices_made (GameState\<lparr> user_choices_made := 1 \<rparr>) \<in> {1, 2, 3, 4}
   \<and> (\<exists>r. fst (continue_narrative (GameState\<lparr> user_choices_made := 1 \<rparr>)) = Inr r)"
  using continue_narrative_returns_iff [of GameState]
    continue_narrative_returns_iff [of "GameState\<lparr> user_choices_made := 5 \<rparr>"]
    continue_narrative_returns_iff [of "GameState\<lparr> user_choices_made := 1 \<rparr>"]
  by (simp add: GameState_def)

end
